theory Spec2Isabelle
  imports Complex_Main "HOL-Library.Multiset"
begin

section \<open>MNIST classification notebooks: data, batches, model, training, evaluation\<close>

text \<open>
  The repository holds two notebooks. The PyTorch notebook defines \<^verbatim>\<open>loaders\<close>,
  the class \<^verbatim>\<open>CNN\<close>, and the functions \<^verbatim>\<open>train\<close> and \<^verbatim>\<open>test\<close>; the TensorFlow notebook
  defines \<^verbatim>\<open>train_ds\<close>, \<^verbatim>\<open>test_ds\<close>, the class \<^verbatim>\<open>MyModel\<close>, \<^verbatim>\<open>train_step\<close>, \<^verbatim>\<open>test_step\<close> and a
  top-level epoch loop. Numerical kernels (convolution, autodiff, Adam, the loss) belong
  to the frameworks and enter the model as parameters; Python floats are idealised as
  \<^typ>\<open>real\<close>.
\<close>

subsection \<open>Errors\<close>

datatype error = UnboundLocalError | ZeroDivisionError | RuntimeError | ValueError | IndexError

subsection \<open>Samples and batches\<close>

text \<open>A sample is an image with its integer label; a batch is what the loader collates
  from a run of samples: the images and, position by position, their labels.\<close>

type_synonym 'i sample = "'i \<times> nat"

definition images :: "'i sample list \<Rightarrow> 'i list" where
  "images b = map fst b"

definition labels :: "'i sample list \<Rightarrow> nat list" where
  "labels b = map snd b"

subsection \<open>Batch provider\<close>

text \<open>
  Modelled from the spec: \<^verbatim>\<open>torch.utils.data.DataLoader\<close> and \<^verbatim>\<open>tf.data.Dataset.batch\<close>
  are framework code, not part of the repository. The spec's Batch Provider cuts the (optionally
  reordered) partition into consecutive groups of B samples, the last one shorter when B
  does not divide the partition size, dropping nothing. A batch size of 0 is refused by
  both frameworks at construction; \<open>batched\<close> yields no batch there.
\<close>

function batched :: "nat \<Rightarrow> 'a list \<Rightarrow> 'a list list" where
  "batched B xs = (if B = 0 \<or> xs = [] then [] else take B xs # batched B (drop B xs))"
  by pat_completeness auto
termination
  by (relation "measure (\<lambda>(B, xs). length xs)") auto

declare batched.simps [simp del]

text \<open>The loader as the notebook constructs it: the partition, \<^verbatim>\<open>batch_size\<close> and
  \<^verbatim>\<open>shuffle\<close> (\<^verbatim>\<open>num_workers\<close> only affects how samples are fetched).\<close>

record 'a DataLoader =
  dataset :: "'a list"
  batch_size :: nat
  shuffle :: bool

text \<open>
  Modelled from the spec: iterating a \<^verbatim>\<open>DataLoader\<close> and taking its \<^verbatim>\<open>len\<close> are framework
  code, not part of the repository. The order of one traversal is, with \<^verbatim>\<open>shuffle\<close>, the order \<open>draw\<close> in
  which the random sampler yields the indices for this traversal, and storage order
  otherwise; the traversal is that order cut into batches; the length is the number of
  batches of a traversal, \<open>\<lceil>N / B\<rceil>\<close>. The sampler draws a permutation of the partition's
  indices, so every index of a draw is in range.
\<close>

definition sampler :: "'a DataLoader \<Rightarrow> nat list \<Rightarrow> nat list" where
  "sampler dl draw = (if shuffle dl then draw else [0..<length (dataset dl)])"

definition iter_DataLoader :: "'a DataLoader \<Rightarrow> nat list \<Rightarrow> 'a list list" where
  "iter_DataLoader dl draw =
     batched (batch_size dl) (map (\<lambda>k. dataset dl ! k) (sampler dl draw))"

definition len_DataLoader :: "'a DataLoader \<Rightarrow> nat" where
  "len_DataLoader dl = (length (dataset dl) + batch_size dl - 1) div batch_size dl"

text \<open>
  Modelled from the spec: the constructor \<^verbatim>\<open>DataLoader(data, batch_size, shuffle)\<close> is
  framework code, not part of the repository. The specification wants the Batch Provider
  to fail on an empty partition instead of yielding no batch; the framework does so for a
  shuffled loader, whose random sampler refuses a partition without samples, and it
  refuses a batch size that is not positive. Both failures are a \<^verbatim>\<open>ValueError\<close>. An
  unshuffled loader over an empty partition is built and yields no batch.
\<close>

definition new_DataLoader :: "'a list \<Rightarrow> int \<Rightarrow> bool \<Rightarrow> error + 'a DataLoader" where
  "new_DataLoader data bs sh =
     (if (sh \<and> data = []) \<or> bs \<le> 0 then Inl ValueError
      else Inr \<lparr> dataset = data, batch_size = nat bs, shuffle = sh \<rparr>)"

text \<open>\<^verbatim>\<open>loaders = {'train': DataLoader(train_data, batch_size=100, shuffle=True, ...),
  'test': DataLoader(test_data, batch_size=100, shuffle=True, ...)}\<close>: the cell fails when
  either constructor does.\<close>

record 'a loaders =
  train_loader :: "'a DataLoader"
  test_loader :: "'a DataLoader"

definition loaders :: "'a list \<Rightarrow> 'a list \<Rightarrow> error + 'a loaders" where
  "loaders train_data test_data =
     (case new_DataLoader train_data 100 True of
        Inl e \<Rightarrow> Inl e
      | Inr tr \<Rightarrow>
          (case new_DataLoader test_data 100 True of
             Inl e \<Rightarrow> Inl e
           | Inr te \<Rightarrow> Inr \<lparr> train_loader = tr, test_loader = te \<rparr>))"

text \<open>
  Modelled from the spec: \<^verbatim>\<open>shuffle\<close> and \<^verbatim>\<open>batch\<close> of \<^verbatim>\<open>tf.data.Dataset\<close> are framework code,
  not part of the repository. The notebook's
  \<^verbatim>\<open>train_ds = Dataset.from_tensor_slices((x_train, y_train)).shuffle(10000).batch(32)\<close> and
  \<^verbatim>\<open>test_ds = Dataset.from_tensor_slices((x_test, y_test)).batch(32)\<close> are one traversal of
  each, the shuffled one in the order \<open>draw\<close> of that traversal.
\<close>

definition train_ds :: "'a list \<Rightarrow> nat list \<Rightarrow> 'a list list" where
  "train_ds xy_train draw = batched 32 (map (\<lambda>k. xy_train ! k) draw)"

definition test_ds :: "'a list \<Rightarrow> 'a list list" where
  "test_ds xy_test = batched 32 xy_test"

subsection \<open>Prediction: index of the largest score\<close>

text \<open>
  Modelled from the spec: \<^verbatim>\<open>torch.max(test_output, 1)\<close> is framework code, not part of the
  repository. Per row it returns the largest score and its index; the spec fixes the tie-break
  to the lowest index, so the scan replaces its candidate only on a strictly larger score.
  A row without entries has no maximum and the call fails.
\<close>

fun argmax_scan :: "real list \<Rightarrow> nat \<Rightarrow> nat \<Rightarrow> real \<Rightarrow> nat" where
  "argmax_scan [] i best_i best = best_i"
| "argmax_scan (x # xs) i best_i best =
     (if best < x then argmax_scan xs (Suc i) i x else argmax_scan xs (Suc i) best_i best)"

fun argmax :: "real list \<Rightarrow> nat option" where
  "argmax [] = None"
| "argmax (x # xs) = Some (argmax_scan xs 1 0 x)"

fun max_scan :: "real list \<Rightarrow> real \<Rightarrow> real" where
  "max_scan [] best = best"
| "max_scan (x # xs) best = (if best < x then max_scan xs x else max_scan xs best)"

text \<open>Modelled from the spec: \<^verbatim>\<open>torch.max(test_output, 1)\<close> on a batch of score rows, the
  pair of the largest scores and of their indices.\<close>

fun torch_max_1 :: "real list list \<Rightarrow> error + (real list \<times> nat list)" where
  "torch_max_1 [] = Inr ([], [])"
| "torch_max_1 (row # rows) =
     (case row of
        [] \<Rightarrow> Inl IndexError
      | x # xs \<Rightarrow>
          (case torch_max_1 rows of
             Inl e \<Rightarrow> Inl e
           | Inr (vals, idxs) \<Rightarrow> Inr (max_scan xs x # vals, argmax_scan xs 1 0 x # idxs)))"

subsection \<open>Classifier models: layers and tensor shapes\<close>

text \<open>
  The layers are framework classes; what the notebooks fix is which layers, with which
  arguments, in which order. A tensor is followed by its shape only. Each layer maps
  the shape of its input to the shape of its output, or rejects it, by the framework's
  documented rule:
  \<^item> \<^verbatim>\<open>nn.Conv2d(in, out, kernel, stride, padding)\<close> on \<open>[N, C, H, W]\<close> needs \<open>C = in\<close> and
    the padded image at least as large as the kernel, and yields
    \<open>[N, out, (H + 2 * padding - kernel) div stride + 1, ...]\<close>;
  \<^item> \<^verbatim>\<open>nn.ReLU()\<close> keeps the shape;
  \<^item> \<^verbatim>\<open>nn.MaxPool2d(k)\<close> (stride \<open>k\<close>, no padding) yields \<open>(H - k) div k + 1\<close> per side;
  \<^item> \<^verbatim>\<open>nn.Linear(in, out)\<close> needs the last dimension to be \<open>in\<close> and replaces it by \<open>out\<close>.
  The convolution and the pooling also take one image without a batch dimension,
  \<open>[C, H, W]\<close>, by the same rules.
\<close>

type_synonym shape = "nat list"

datatype layer =
    Conv2d nat nat nat nat nat
  | ReLU
  | MaxPool2d nat
  | Linear nat nat

fun layer_shape :: "layer \<Rightarrow> shape \<Rightarrow> error + shape" where
  "layer_shape (Conv2d cin cout k st p) sh =
     (case sh of
        [n, c, h, w] \<Rightarrow>
          if c \<noteq> cin \<or> st = 0 \<or> h + 2 * p < k \<or> w + 2 * p < k then Inl RuntimeError
          else Inr [n, cout, (h + 2 * p - k) div st + 1, (w + 2 * p - k) div st + 1]
      | [c, h, w] \<Rightarrow>
          if c \<noteq> cin \<or> st = 0 \<or> h + 2 * p < k \<or> w + 2 * p < k then Inl RuntimeError
          else Inr [cout, (h + 2 * p - k) div st + 1, (w + 2 * p - k) div st + 1]
      | _ \<Rightarrow> Inl RuntimeError)"
| "layer_shape ReLU sh = Inr sh"
| "layer_shape (MaxPool2d k) sh =
     (case sh of
        [n, c, h, w] \<Rightarrow>
          if k = 0 \<or> h < k \<or> w < k then Inl RuntimeError
          else Inr [n, c, (h - k) div k + 1, (w - k) div k + 1]
      | [c, h, w] \<Rightarrow>
          if k = 0 \<or> h < k \<or> w < k then Inl RuntimeError
          else Inr [c, (h - k) div k + 1, (w - k) div k + 1]
      | _ \<Rightarrow> Inl RuntimeError)"
| "layer_shape (Linear fin fout) sh =
     (if sh = [] \<or> last sh \<noteq> fin then Inl RuntimeError else Inr (butlast sh @ [fout]))"

text \<open>\<^verbatim>\<open>nn.Sequential\<close>: the layers one after the other, stopping at the first rejection.\<close>

fun Sequential :: "layer list \<Rightarrow> shape \<Rightarrow> error + shape" where
  "Sequential [] sh = Inr sh"
| "Sequential (l # ls) sh =
     (case layer_shape l sh of Inl e \<Rightarrow> Inl e | Inr sh' \<Rightarrow> Sequential ls sh')"

text \<open>\<^verbatim>\<open>CNN.__init__\<close>\<close>

definition conv1 :: "layer list" where
  "conv1 = [Conv2d 1 16 5 1 2, ReLU, MaxPool2d 2]"

definition conv2 :: "layer list" where
  "conv2 = [Conv2d 16 32 5 1 2, ReLU, MaxPool2d 2]"

definition out :: layer where
  "out = Linear (32 * 7 * 7) 10"

text \<open>\<^verbatim>\<open>x.view(x.size(0), -1)\<close>: the first dimension is kept and the others are merged;
  with a first dimension of 0 the merged one cannot be inferred and the call fails.\<close>

definition view_flat :: "shape \<Rightarrow> error + shape" where
  "view_flat sh =
     (case sh of
        [] \<Rightarrow> Inl RuntimeError
      | n # rest \<Rightarrow> if n = 0 then Inl RuntimeError else Inr [n, prod_list rest])"

text \<open>\<^verbatim>\<open>CNN.forward\<close>: it returns \<^verbatim>\<open>output, x\<close>, the scores and the flattened features.\<close>

definition CNN_forward :: "shape \<Rightarrow> error + (shape \<times> shape)" where
  "CNN_forward x0 =
     (case Sequential conv1 x0 of
        Inl e \<Rightarrow> Inl e
      | Inr x1 \<Rightarrow>
          (case Sequential conv2 x1 of
             Inl e \<Rightarrow> Inl e
           | Inr x2 \<Rightarrow>
               (case view_flat x2 of
                  Inl e \<Rightarrow> Inl e
                | Inr x \<Rightarrow>
                    (case layer_shape out x of
                       Inl e \<Rightarrow> Inl e
                     | Inr output \<Rightarrow> Inr (output, x)))))"

text \<open>
  The Keras layers of \<^verbatim>\<open>MyModel\<close>, on channels-last input \<open>[N, H, W, C]\<close>. They create
  their weights at the first call from the shape they are given, so they declare no input
  width. \<^verbatim>\<open>Conv2D(filters, kernel_size, activation)\<close> (stride 1, no padding) yields
  \<open>[N, H - kernel_size + 1, W - kernel_size + 1, filters]\<close>; \<^verbatim>\<open>Flatten()\<close> merges all but
  the first dimension; \<^verbatim>\<open>Dense(units, activation)\<close> replaces the last dimension. The
  activation, if any, is applied entry by entry.
\<close>

datatype keras_layer =
    Conv2D nat nat "string option"
  | Flatten
  | Dense nat "string option"

fun keras_shape :: "keras_layer \<Rightarrow> shape \<Rightarrow> error + shape" where
  "keras_shape (Conv2D filters k act) sh =
     (case sh of
        [n, h, w, c] \<Rightarrow>
          if k = 0 \<or> h < k \<or> w < k then Inl RuntimeError
          else Inr [n, h - k + 1, w - k + 1, filters]
      | _ \<Rightarrow> Inl RuntimeError)"
| "keras_shape Flatten sh =
     (case sh of [] \<Rightarrow> Inl RuntimeError | n # rest \<Rightarrow> Inr [n, prod_list rest])"
| "keras_shape (Dense units act) sh =
     (if length sh < 2 then Inl RuntimeError else Inr (butlast sh @ [units]))"

text \<open>\<^verbatim>\<open>MyModel.__init__\<close> and \<^verbatim>\<open>MyModel.call\<close>\<close>

definition MyModel :: "keras_layer list" where
  "MyModel = [Conv2D 32 3 (Some ''relu''), Flatten, Dense 128 (Some ''relu''), Dense 10 None]"

fun keras_apply :: "keras_layer list \<Rightarrow> shape \<Rightarrow> error + shape" where
  "keras_apply [] sh = Inr sh"
| "keras_apply (l # ls) sh =
     (case keras_shape l sh of Inl e \<Rightarrow> Inl e | Inr sh' \<Rightarrow> keras_apply ls sh')"

definition MyModel_call :: "shape \<Rightarrow> error + shape" where
  "MyModel_call x = keras_apply MyModel x"

subsection \<open>Text output\<close>

text \<open>Python's \<^verbatim>\<open>{}\<close> of an integer: its decimal digits, with a minus sign below zero.\<close>

definition digit_char :: "nat \<Rightarrow> char" where
  "digit_char d =
     (if d = 0 then CHR ''0'' else if d = 1 then CHR ''1'' else if d = 2 then CHR ''2''
      else if d = 3 then CHR ''3'' else if d = 4 then CHR ''4'' else if d = 5 then CHR ''5''
      else if d = 6 then CHR ''6'' else if d = 7 then CHR ''7'' else if d = 8 then CHR ''8''
      else CHR ''9'')"

function str_nat :: "nat \<Rightarrow> string" where
  "str_nat n = (if n < 10 then [digit_char n] else str_nat (n div 10) @ [digit_char (n mod 10)])"
  by pat_completeness auto
termination
  by (relation "measure (\<lambda>n. n)") auto

declare str_nat.simps [simp del]

definition str_int :: "int \<Rightarrow> string" where
  "str_int k = (if k < 0 then CHR ''-'' # str_nat (nat (- k)) else str_nat (nat k))"

subsection \<open>The PyTorch session: framework operations and mutable state\<close>

text \<open>
  What the notebook takes from the framework, as parameters:
  \<^item> \<open>forward\<close>: \<^verbatim>\<open>CNN.forward\<close> on one image under given weights; it returns the pair
    \<^verbatim>\<open>(output, x)\<close> of the scores and the flattened features. Every layer of \<^verbatim>\<open>CNN\<close>
    acts on each image of a batch by itself, so a batch is mapped image by image;
  \<^item> \<open>loss_func\<close>: \<^verbatim>\<open>nn.CrossEntropyLoss()\<close>;
  \<^item> \<open>autograd\<close>: the gradient, at given weights, of a scalar function of the weights
    (what \<^verbatim>\<open>loss.backward()\<close> computes);
  \<^item> \<open>grad_add\<close>: accumulation of a gradient onto a stored one;
  \<^item> \<open>adam\<close>: one update of \<^verbatim>\<open>optim.Adam\<close> from its state, the weights and a gradient;
  \<^item> \<open>fmt\<close>: fixed-point formatting \<^verbatim>\<open>%.<d>f\<close> of a float.
\<close>

record ('p, 'i, 'g, 'o) torch =
  forward :: "'p \<Rightarrow> 'i \<Rightarrow> real list \<times> real list"
  loss_func :: "real list list \<Rightarrow> nat list \<Rightarrow> real"
  autograd :: "('p \<Rightarrow> real) \<Rightarrow> 'p \<Rightarrow> 'g"
  grad_add :: "'g \<Rightarrow> 'g \<Rightarrow> 'g"
  adam :: "'o \<Rightarrow> 'p \<Rightarrow> 'g \<Rightarrow> 'o \<times> 'p"
  fmt :: "nat \<Rightarrow> real \<Rightarrow> string"

text \<open>Calls into the framework, in the order made: the forward pass with the mode the
  model is in and the images, the loss with the labels, clearing the gradients, the
  backward pass, the optimizer step.\<close>

datatype 'i call =
    Forward bool "'i list"
  | LossFunc "nat list"
  | ZeroGrad
  | Backward
  | OptimizerStep

text \<open>The module-level objects \<^verbatim>\<open>cnn\<close> (weights, stored gradients, mode) and
  \<^verbatim>\<open>optimizer\<close>, the lines printed, and the log of framework calls.\<close>

record ('p, 'i, 'g, 'o) session =
  parameters :: 'p
  grad :: "'g option"
  optimizer_state :: 'o
  training :: bool
  stdout :: "string list"
  calls :: "'i call list"

definition cnn :: "('p, 'i, 'g, 'o) torch \<Rightarrow> 'p \<Rightarrow> 'i list \<Rightarrow> real list list \<times> real list list" where
  "cnn fw w xs = (map (\<lambda>x. fst (forward fw w x)) xs, map (\<lambda>x. snd (forward fw w x)) xs)"

definition log_call :: "'i call \<Rightarrow> ('p, 'i, 'g, 'o) session \<Rightarrow> ('p, 'i, 'g, 'o) session" where
  "log_call c s = s\<lparr> calls := calls s @ [c] \<rparr>"

definition print :: "string \<Rightarrow> ('p, 'i, 'g, 'o) session \<Rightarrow> ('p, 'i, 'g, 'o) session" where
  "print line s = s\<lparr> stdout := stdout s @ [line] \<rparr>"

text \<open>\<^verbatim>\<open>optimizer.zero_grad()\<close>, \<^verbatim>\<open>loss.backward()\<close> for the loss as a function of the
  weights, and \<^verbatim>\<open>optimizer.step()\<close>, which leaves weights without a gradient alone.\<close>

definition zero_grad :: "('p, 'i, 'g, 'o) session \<Rightarrow> ('p, 'i, 'g, 'o) session" where
  "zero_grad s = log_call ZeroGrad (s\<lparr> grad := None \<rparr>)"

definition backward ::
  "('p, 'i, 'g, 'o) torch \<Rightarrow> ('p \<Rightarrow> real) \<Rightarrow> ('p, 'i, 'g, 'o) session \<Rightarrow> ('p, 'i, 'g, 'o) session" where
  "backward fw loss s =
     (let g = autograd fw loss (parameters s)
      in log_call Backward
           (s\<lparr> grad := Some (case grad s of None \<Rightarrow> g | Some g0 \<Rightarrow> grad_add fw g0 g) \<rparr>))"

definition step :: "('p, 'i, 'g, 'o) torch \<Rightarrow> ('p, 'i, 'g, 'o) session \<Rightarrow> ('p, 'i, 'g, 'o) session" where
  "step fw s =
     log_call OptimizerStep
       (case grad s of
          None \<Rightarrow> s
        | Some g \<Rightarrow>
            (let (st, w) = adam fw (optimizer_state s) (parameters s) g
             in s\<lparr> parameters := w, optimizer_state := st \<rparr>))"

subsection \<open>Training loop of the PyTorch notebook\<close>

definition progress_line :: "(nat \<Rightarrow> real \<Rightarrow> string) \<Rightarrow> int \<Rightarrow> int \<Rightarrow> int \<Rightarrow> int \<Rightarrow> real \<Rightarrow> string" where
  "progress_line f e num_epochs st total_step loss =
     ''Epoch ['' @ str_int e @ ''/'' @ str_int num_epochs @ ''], Step ['' @ str_int st @ ''/''
       @ str_int total_step @ ''], Loss: '' @ f 4 loss"

text \<open>The body of the inner loop for batch number \<open>i\<close> of epoch \<open>epoch\<close>.\<close>

definition train_batch ::
  "('p, 'i, 'g, 'o) torch \<Rightarrow> int \<Rightarrow> nat \<Rightarrow> nat \<Rightarrow> nat \<times> 'i sample list \<Rightarrow>
     ('p, 'i, 'g, 'o) session \<Rightarrow> ('p, 'i, 'g, 'o) session" where
  "train_batch fw num_epochs total_step epoch ib s =
     (let i = fst ib;
          b_x = images (snd ib);
          b_y = labels (snd ib);
          output = fst (cnn fw (parameters s) b_x);
          s1 = log_call (Forward (training s) b_x) s;
          loss = loss_func fw output b_y;
          s2 = log_call (LossFunc b_y) s1;
          s3 = zero_grad s2;
          s4 = backward fw (\<lambda>w. loss_func fw (fst (cnn fw w b_x)) b_y) s3;
          s5 = step fw s4
      in if (i + 1) mod 100 = 0
         then print (progress_line (fmt fw) (int epoch + 1) num_epochs (int i + 1) (int total_step) loss) s5
         else s5)"

text \<open>One pass of the inner loop: \<^verbatim>\<open>enumerate(loaders['train'])\<close> numbers the batches of
  this traversal from 0.\<close>

definition train_epoch ::
  "('p, 'i, 'g, 'o) torch \<Rightarrow> int \<Rightarrow> nat \<Rightarrow> 'i sample DataLoader \<Rightarrow> (nat \<Rightarrow> nat list) \<Rightarrow>
     ('p, 'i, 'g, 'o) session \<Rightarrow> nat \<Rightarrow> ('p, 'i, 'g, 'o) session" where
  "train_epoch fw num_epochs total_step dl draws s epoch =
     foldl (\<lambda>s ib. train_batch fw num_epochs total_step epoch ib s) s
       (enumerate 0 (iter_DataLoader dl (draws epoch)))"

text \<open>\<^verbatim>\<open>train(num_epochs, cnn, loaders)\<close>: \<^verbatim>\<open>cnn.train()\<close>, the number of batches, then
  \<^verbatim>\<open>range(num_epochs)\<close> epochs (none when \<^verbatim>\<open>num_epochs\<close> is not positive). Epoch \<open>e\<close>
  traverses the training loader in the order \<open>draws e\<close>.\<close>

definition train ::
  "('p, 'i, 'g, 'o) torch \<Rightarrow> int \<Rightarrow> 'i sample loaders \<Rightarrow> (nat \<Rightarrow> nat list) \<Rightarrow>
     ('p, 'i, 'g, 'o) session \<Rightarrow> ('p, 'i, 'g, 'o) session" where
  "train fw num_epochs lds draws s =
     (let s0 = s\<lparr> training := True \<rparr>;
          total_step = len_DataLoader (train_loader lds)
      in foldl (train_epoch fw num_epochs total_step (train_loader lds) draws) s0
           [0..<nat num_epochs])"

subsection \<open>Evaluation routine of the PyTorch notebook\<close>

text \<open>The local variables of \<^verbatim>\<open>test\<close>: \<^verbatim>\<open>correct\<close> and \<^verbatim>\<open>total\<close> are set to 0 and never
  assigned again; \<^verbatim>\<open>accuracy\<close> has no value until the loop body has run once.\<close>

record test_locals =
  correct :: nat
  total :: nat
  accuracy :: "real option"

definition count_equal :: "nat list \<Rightarrow> nat list \<Rightarrow> nat" where
  "count_equal pred_y ys = length (filter (\<lambda>(p, y). p = y) (zip pred_y ys))"

text \<open>The loop body for one batch: forward pass, predicted classes, and the share of
  this batch's labels that were predicted, which overwrites \<^verbatim>\<open>accuracy\<close>.\<close>

definition test_batch ::
  "('p, 'i, 'g, 'o) torch \<Rightarrow> 'i sample list \<Rightarrow> test_locals \<times> ('p, 'i, 'g, 'o) session \<Rightarrow>
     error option \<times> test_locals \<times> ('p, 'i, 'g, 'o) session" where
  "test_batch fw b ls =
     (let loc = fst ls; s = snd ls;
          test_output = fst (cnn fw (parameters s) (images b));
          s1 = log_call (Forward (training s) (images b)) s
      in case torch_max_1 test_output of
           Inl e \<Rightarrow> (Some e, loc, s1)
         | Inr (vals, pred_y) \<Rightarrow>
             if length (labels b) = 0 then (Some ZeroDivisionError, loc, s1)
             else (None,
                   loc\<lparr> accuracy :=
                     Some (real (count_equal pred_y (labels b)) / real (length (labels b))) \<rparr>,
                   s1))"

fun test_loop ::
  "('p, 'i, 'g, 'o) torch \<Rightarrow> 'i sample list list \<Rightarrow> test_locals \<times> ('p, 'i, 'g, 'o) session \<Rightarrow>
     error option \<times> test_locals \<times> ('p, 'i, 'g, 'o) session" where
  "test_loop fw [] ls = (None, ls)"
| "test_loop fw (b # bs) ls =
     (case test_batch fw b ls of
        (Some e, ls') \<Rightarrow> (Some e, ls')
      | (None, ls') \<Rightarrow> test_loop fw bs ls')"

definition report_line :: "(nat \<Rightarrow> real \<Rightarrow> string) \<Rightarrow> real \<Rightarrow> string" where
  "report_line f acc = ''Test Accuracy of the model on the 10000 test images: '' @ f 3 acc"

text \<open>\<^verbatim>\<open>test()\<close>: \<^verbatim>\<open>cnn.eval()\<close>, the loop over one traversal of the test loader, then the
  print, which raises when \<^verbatim>\<open>accuracy\<close> was never assigned. The result is the exception
  raised, if any, and the session afterwards.\<close>

definition test ::
  "('p, 'i, 'g, 'o) torch \<Rightarrow> 'i sample loaders \<Rightarrow> nat list \<Rightarrow> ('p, 'i, 'g, 'o) session \<Rightarrow>
     error option \<times> ('p, 'i, 'g, 'o) session" where
  "test fw lds draw s =
     (let s0 = s\<lparr> training := False \<rparr>;
          loc0 = \<lparr> correct = 0, total = 0, accuracy = None \<rparr>
      in case test_loop fw (iter_DataLoader (test_loader lds) draw) (loc0, s0) of
           (Some e, loc, s1) \<Rightarrow> (Some e, s1)
         | (None, loc, s1) \<Rightarrow>
             (case accuracy loc of
                None \<Rightarrow> (Some UnboundLocalError, s1)
              | Some acc \<Rightarrow> (None, print (report_line (fmt fw) acc) s1)))"

subsection \<open>The TensorFlow session\<close>

text \<open>
  What the TensorFlow notebook takes from the framework, as parameters:
  \<^item> \<open>model\<close>: \<^verbatim>\<open>MyModel.call\<close> on one image under given weights and the \<^verbatim>\<open>training\<close> flag;
  \<^item> \<open>loss_object\<close>: \<^verbatim>\<open>SparseCategoricalCrossentropy(from_logits=True)\<close>;
  \<^item> \<open>tape_gradient\<close>: the gradient, at given weights, of a scalar function of the weights;
  \<^item> \<open>apply_gradients\<close>: one update of \<^verbatim>\<open>tf.keras.optimizers.Adam\<close>;
  \<^item> \<open>show_tensor\<close>: how a scalar tensor prints inside an f-string.
\<close>

record ('p, 'i, 'g, 'o) keras =
  model :: "'p \<Rightarrow> bool \<Rightarrow> 'i \<Rightarrow> real list"
  loss_object :: "nat list \<Rightarrow> real list list \<Rightarrow> real"
  tape_gradient :: "('p \<Rightarrow> real) \<Rightarrow> 'p \<Rightarrow> 'g"
  apply_gradients :: "'o \<Rightarrow> 'p \<Rightarrow> 'g \<Rightarrow> 'o \<times> 'p"
  show_tensor :: "real \<Rightarrow> string"

text \<open>A Keras metric keeps a running total and a count; its result is their quotient,
  and 0 while the count is 0.\<close>

record metric =
  m_total :: real
  m_count :: real

definition reset_states :: "metric \<Rightarrow> metric" where
  "reset_states m = \<lparr> m_total = 0, m_count = 0 \<rparr>"

definition result :: "metric \<Rightarrow> real" where
  "result m = (if m_count m = 0 then 0 else m_total m / m_count m)"

text \<open>\<^verbatim>\<open>Mean\<close> called on a scalar, and \<^verbatim>\<open>SparseCategoricalAccuracy\<close> called on labels and
  score rows (a sample counts when the index of its largest score is its label).\<close>

definition update_mean :: "real \<Rightarrow> metric \<Rightarrow> metric" where
  "update_mean v m = \<lparr> m_total = m_total m + v, m_count = m_count m + 1 \<rparr>"

definition update_accuracy :: "nat list \<Rightarrow> real list list \<Rightarrow> metric \<Rightarrow> metric" where
  "update_accuracy ys rows m =
     \<lparr> m_total = m_total m + real (length (filter (\<lambda>(y, row). argmax row = Some y) (zip ys rows))),
       m_count = m_count m + real (length ys) \<rparr>"

datatype 'i tf_call =
    CallModel bool "'i list"
  | CallLoss "nat list"
  | TapeGradient
  | ApplyGradients
  | MetricUpdate string
  | MetricReset string

record ('p, 'i, 'o) tf_session =
  trainable_variables :: 'p
  adam_state :: 'o
  train_loss :: metric
  train_accuracy :: metric
  test_loss :: metric
  test_accuracy :: metric
  tf_stdout :: "string list"
  tf_calls :: "'i tf_call list"

definition tf_log :: "'i tf_call list \<Rightarrow> ('p, 'i, 'o) tf_session \<Rightarrow> ('p, 'i, 'o) tf_session" where
  "tf_log cs s = s\<lparr> tf_calls := tf_calls s @ cs \<rparr>"

definition call_model :: "('p, 'i, 'g, 'o) keras \<Rightarrow> 'p \<Rightarrow> bool \<Rightarrow> 'i list \<Rightarrow> real list list" where
  "call_model kr w tr xs = map (model kr w tr) xs"

text \<open>\<^verbatim>\<open>train_step(images, labels)\<close>\<close>

definition train_step ::
  "('p, 'i, 'g, 'o) keras \<Rightarrow> 'i sample list \<Rightarrow> ('p, 'i, 'o) tf_session \<Rightarrow> ('p, 'i, 'o) tf_session" where
  "train_step kr b s =
     (let xs = images b; ys = labels b;
          predictions = call_model kr (trainable_variables s) True xs;
          loss = loss_object kr ys predictions;
          gradients =
            tape_gradient kr (\<lambda>w. loss_object kr ys (call_model kr w True xs)) (trainable_variables s);
          (st, w) = apply_gradients kr (adam_state s) (trainable_variables s) gradients;
          s1 = tf_log [CallModel True xs, CallLoss ys, TapeGradient, ApplyGradients]
                 (s\<lparr> trainable_variables := w, adam_state := st \<rparr>);
          s2 = tf_log [MetricUpdate ''train_loss''] (s1\<lparr> train_loss := update_mean loss (train_loss s1) \<rparr>)
      in tf_log [MetricUpdate ''train_accuracy'']
           (s2\<lparr> train_accuracy := update_accuracy ys predictions (train_accuracy s2) \<rparr>))"

text \<open>\<^verbatim>\<open>test_step(images, labels)\<close>\<close>

definition test_step ::
  "('p, 'i, 'g, 'o) keras \<Rightarrow> 'i sample list \<Rightarrow> ('p, 'i, 'o) tf_session \<Rightarrow> ('p, 'i, 'o) tf_session" where
  "test_step kr b s =
     (let xs = images b; ys = labels b;
          predictions = call_model kr (trainable_variables s) False xs;
          t_loss = loss_object kr ys predictions;
          s1 = tf_log [CallModel False xs, CallLoss ys] s;
          s2 = tf_log [MetricUpdate ''test_loss''] (s1\<lparr> test_loss := update_mean t_loss (test_loss s1) \<rparr>)
      in tf_log [MetricUpdate ''test_accuracy'']
           (s2\<lparr> test_accuracy := update_accuracy ys predictions (test_accuracy s2) \<rparr>))"

definition epoch_line :: "(real \<Rightarrow> string) \<Rightarrow> nat \<Rightarrow> ('p, 'i, 'o) tf_session \<Rightarrow> string" where
  "epoch_line sh epoch s =
     ''Epoch '' @ str_int (int epoch + 1) @ '', Loss: '' @ sh (result (train_loss s))
       @ '', Accuracy: '' @ sh (result (train_accuracy s) * 100)
       @ '', Test Loss: '' @ sh (result (test_loss s))
       @ '', Test Accuracy: '' @ sh (result (test_accuracy s) * 100)"

text \<open>The body of the top-level loop \<^verbatim>\<open>for epoch in range(EPOCHS)\<close>: the four resets,
  one traversal of \<^verbatim>\<open>train_ds\<close> with \<^verbatim>\<open>train_step\<close>, one of \<^verbatim>\<open>test_ds\<close> with
  \<^verbatim>\<open>test_step\<close>, and the report.\<close>

definition reset_all :: "('p, 'i, 'o) tf_session \<Rightarrow> ('p, 'i, 'o) tf_session" where
  "reset_all s =
     tf_log [MetricReset ''train_loss'', MetricReset ''train_accuracy'',
             MetricReset ''test_loss'', MetricReset ''test_accuracy'']
       (s\<lparr> train_loss := reset_states (train_loss s),
           train_accuracy := reset_states (train_accuracy s),
           test_loss := reset_states (test_loss s),
           test_accuracy := reset_states (test_accuracy s) \<rparr>)"

definition tf_epoch ::
  "('p, 'i, 'g, 'o) keras \<Rightarrow> 'i sample list \<Rightarrow> 'i sample list \<Rightarrow> (nat \<Rightarrow> nat list) \<Rightarrow>
     ('p, 'i, 'o) tf_session \<Rightarrow> nat \<Rightarrow> ('p, 'i, 'o) tf_session" where
  "tf_epoch kr xy_train xy_test draws s epoch =
     (let s1 = reset_all s;
          s2 = foldl (\<lambda>s b. train_step kr b s) s1 (train_ds xy_train (draws epoch));
          s3 = foldl (\<lambda>s b. test_step kr b s) s2 (test_ds xy_test)
      in s3\<lparr> tf_stdout := tf_stdout s3 @ [epoch_line (show_tensor kr) epoch s3] \<rparr>)"

definition tf_epochs ::
  "('p, 'i, 'g, 'o) keras \<Rightarrow> int \<Rightarrow> 'i sample list \<Rightarrow> 'i sample list \<Rightarrow> (nat \<Rightarrow> nat list) \<Rightarrow>
     ('p, 'i, 'o) tf_session \<Rightarrow> ('p, 'i, 'o) tf_session" where
  "tf_epochs kr EPOCHS xy_train xy_test draws s =
     foldl (tf_epoch kr xy_train xy_test draws) s [0..<nat EPOCHS]"

section \<open>What the specification says, in the terms of the model\<close>

text \<open>One traversal \<open>bs\<close> covers the partition \<open>part\<close> in batches of \<open>B\<close>: there are
  \<open>\<lceil>N / B\<rceil>\<close> batches, together they hold exactly the samples of the partition, all but the
  last have \<open>B\<close> samples, and the last has \<open>B\<close> when \<open>B\<close> divides \<open>N\<close> and \<open>N mod B\<close>
  otherwise.\<close>

definition covers_once :: "nat \<Rightarrow> 'a list \<Rightarrow> 'a list list \<Rightarrow> bool" where
  "covers_once B part bs \<longleftrightarrow>
     int (length bs) = \<lceil>real (length part) / real B\<rceil> \<and>
     mset (concat bs) = mset part \<and>
     list_all (\<lambda>b. length b = B) (butlast bs) \<and>
     (bs = [] \<or> length (last bs) = (if B dvd length part then B else length part mod B))"

text \<open>\<open>k\<close> is the class with the highest score of \<open>row\<close>, and the lowest such class.\<close>

definition first_max :: "real list \<Rightarrow> nat \<Rightarrow> bool" where
  "first_max row k \<longleftrightarrow>
     k < length row \<and> (\<forall>j<length row. row ! j \<le> row ! k) \<and> (\<forall>j<k. row ! j < row ! k)"










text \<open>The loss of a batch under given weights, in either notebook.\<close>

definition batch_loss :: "('p, 'i, 'g, 'o) torch \<Rightarrow> 'p \<Rightarrow> 'i sample list \<Rightarrow> real" where
  "batch_loss fw w b = loss_func fw (fst (cnn fw w (images b))) (labels b)"




text \<open>The share of correct predictions within one batch, as the loop body of \<^verbatim>\<open>test\<close>
  computes it.\<close>

definition batch_accuracy :: "('p, 'i, 'g, 'o) torch \<Rightarrow> 'p \<Rightarrow> 'i sample list \<Rightarrow> real" where
  "batch_accuracy fw w b =
     (case torch_max_1 (fst (cnn fw w (images b))) of
        Inl e \<Rightarrow> 0
      | Inr (vals, pred_y) \<Rightarrow> real (count_equal pred_y (labels b)) / real (length (labels b)))"


section \<open>A small session for examples\<close>

text \<open>Fixed-point formatting of a real with \<open>d\<close> decimals, rounding to nearest and ties
  to even. Python applies the same rule to the binary value of the float, so the two agree
  on the reals that are floats, such as 0, 1/4, 1/2 and 1 in the examples below, and can
  differ elsewhere: 1/80 is 0.012 here, and 0.013 for the float nearest to it.\<close>

definition round_half_even :: "real \<Rightarrow> int" where
  "round_half_even y =
     (let f = \<lfloor>y\<rfloor>; r = y - of_int f
      in if r < 1 / 2 then f else if 1 / 2 < r then f + 1 else if even f then f else f + 1)"

function zero_pad :: "nat \<Rightarrow> string \<Rightarrow> string" where
  "zero_pad d s = (if length s < d then zero_pad d (CHR ''0'' # s) else s)"
  by pat_completeness auto
termination
  by (relation "measure (\<lambda>(d, s). d - length s)") auto

declare zero_pad.simps [simp del]

definition fixed_point :: "nat \<Rightarrow> real \<Rightarrow> string" where
  "fixed_point d x =
     (let n = nat (round_half_even (\<bar>x\<bar> * 10 ^ d));
          whole = str_nat (n div 10 ^ d);
          part = str_nat (n mod 10 ^ d)
      in (if x < 0 then ''-'' else []) @ whole
           @ (if d = 0 then [] else ''.'' @ zero_pad d part))"

text \<open>A model forced to score class 0 highest on every image, with a constant loss and
  trivial weights; a fresh session; loaders over three training and two test samples;
  the same for the TensorFlow notebook.\<close>

definition always_class_0 :: "(unit, nat, unit, unit) torch" where
  "always_class_0 =
     \<lparr> forward = (\<lambda>w x. ([1, 0, 0, 0, 0, 0, 0, 0, 0, 0], [])),
       loss_func = (\<lambda>rows ys. 1 / 4),
       autograd = (\<lambda>f w. ()),
       grad_add = (\<lambda>a b. ()),
       adam = (\<lambda>st w g. ((), ())),
       fmt = fixed_point \<rparr>"

definition fresh_session :: "(unit, nat, unit, unit) session" where
  "fresh_session =
     \<lparr> parameters = (), grad = None, optimizer_state = (), training = True, stdout = [], calls = [] \<rparr>"

definition two_batches :: "nat sample loaders" where
  "two_batches =
     \<lparr> train_loader = \<lparr> dataset = [(0, 1), (1, 0), (2, 0)], batch_size = 2, shuffle = True \<rparr>,
       test_loader = \<lparr> dataset = [(0, 1), (1, 0)], batch_size = 1, shuffle = True \<rparr> \<rparr>"

definition three_samples :: "string DataLoader" where
  "three_samples = \<lparr> dataset = [''a'', ''b'', ''c''], batch_size = 2, shuffle = True \<rparr>"


text \<open>A model under which classes 1 and 2 tie for the highest score on every image; a
  model whose scores and features depend on the image (class 0 for image 0, class 1
  otherwise), with a loss that tells the scores of image 1 from any others; and a forward
  pass with the same scores as the latter and other features.\<close>

definition tied_scores :: "(unit, nat, unit, unit) torch" where
  "tied_scores =
     \<lparr> forward = (\<lambda>w x. ([0, 3, 3, 0, 0, 0, 0, 0, 0, 0], [])),
       loss_func = (\<lambda>rows ys. 1 / 4),
       autograd = (\<lambda>f w. ()),
       grad_add = (\<lambda>a b. ()),
       adam = (\<lambda>st w g. ((), ())),
       fmt = fixed_point \<rparr>"

definition scores_by_image :: "(unit, nat, unit, unit) torch" where
  "scores_by_image =
     \<lparr> forward = (\<lambda>w x. (if x = 0 then [1, 0, 0, 0, 0, 0, 0, 0, 0, 0]
                           else [0, 1, 0, 0, 0, 0, 0, 0, 0, 0], [real x, real x])),
       loss_func = (\<lambda>rows ys. if rows = [[0, 1, 0, 0, 0, 0, 0, 0, 0, 0]] then 1 / 4 else 3),
       autograd = (\<lambda>f w. ()),
       grad_add = (\<lambda>a b. ()),
       adam = (\<lambda>st w g. ((), ())),
       fmt = fixed_point \<rparr>"

definition other_features :: "unit \<Rightarrow> nat \<Rightarrow> real list \<times> real list" where
  "other_features w x = (fst (forward scores_by_image w x), [5, 5])"

definition always_class_0_tf :: "(unit, nat, unit, unit) keras" where
  "always_class_0_tf =
     \<lparr> model = (\<lambda>w tr x. [1, 0, 0, 0, 0, 0, 0, 0, 0, 0]),
       loss_object = (\<lambda>ys rows. 1 / 4),
       tape_gradient = (\<lambda>f w. ()),
       apply_gradients = (\<lambda>st w g. ((), ())),
       show_tensor = fixed_point 4 \<rparr>"

definition fresh_tf_session :: "(unit, nat, unit) tf_session" where
  "fresh_tf_session =
     \<lparr> trainable_variables = (), adam_state = (),
       train_loss = \<lparr> m_total = 0, m_count = 0 \<rparr>, train_accuracy = \<lparr> m_total = 0, m_count = 0 \<rparr>,
       test_loss = \<lparr> m_total = 0, m_count = 0 \<rparr>, test_accuracy = \<lparr> m_total = 0, m_count = 0 \<rparr>,
       tf_stdout = [], tf_calls = [] \<rparr>"

section \<open>Auxiliary facts\<close>

subsection \<open>Batches\<close>

lemma batched_Nil [simp]: "batched B [] = []"
  by (simp add: batched.simps)

lemma batched_step: "0 < B \<Longrightarrow> xs \<noteq> [] \<Longrightarrow> batched B xs = take B xs # batched B (drop B xs)"
  by (subst batched.simps) simp

lemma concat_batched: "0 < B \<Longrightarrow> concat (batched B xs) = xs"
proof (induction B xs rule: batched.induct)
  case (1 B xs)
  show ?case
  proof (cases "xs = []")
    case True
    then show ?thesis by simp
  next
    case False
    with 1 show ?thesis by (simp add: batched_step)
  qed
qed

lemma length_batched: "0 < B \<Longrightarrow> length (batched B xs) = (length xs + B - 1) div B"
proof (induction B xs rule: batched.induct)
  case (1 B xs)
  show ?case
  proof (cases "xs = []")
    case True
    with 1 show ?thesis by simp
  next
    case False
    then have pos: "0 < length xs" by simp
    from 1 False have ih: "length (batched B (drop B xs)) = (length xs - B + B - 1) div B"
      by simp
    show ?thesis
    proof (cases "B \<le> length xs")
      case True
      then obtain m where m: "length xs = m + B"
        by (metis le_add_diff_inverse2)
      define k where "k = m + B - 1"
      have "m + B + B - 1 = k + B"
        using \<open>0 < B\<close> by (simp add: k_def)
      moreover have "(k + B) div B = Suc (k div B)"
        using \<open>0 < B\<close> by simp
      ultimately have "(length xs + B - 1) div B = Suc ((length xs - B + B - 1) div B)"
        using m by (simp add: k_def)
      with ih False 1 show ?thesis by (simp add: batched_step)
    next
      case False
      then have lt: "length xs < B" by simp
      from pos obtain j where j: "length xs = Suc j"
        by (cases "length xs") auto
      with lt have "j < B" by simp
      then have "(j + B) div B = 1" by simp
      with j have "(length xs + B - 1) div B = 1" by simp
      with lt \<open>xs \<noteq> []\<close> 1 show ?thesis by (simp add: batched_step)
    qed
  qed
qed

lemma batched_eq_Nil: "0 < B \<Longrightarrow> batched B xs = [] \<longleftrightarrow> xs = []"
  by (cases "xs = []") (simp_all add: batched_step)

lemma butlast_batched: "0 < B \<Longrightarrow> list_all (\<lambda>b. length b = B) (butlast (batched B xs))"
proof (induction B xs rule: batched.induct)
  case (1 B xs)
  show ?case
  proof (cases "xs = []")
    case True
    then show ?thesis by simp
  next
    case False
    show ?thesis
    proof (cases "drop B xs = []")
      case True
      with False 1 show ?thesis by (simp add: batched_step)
    next
      case d: False
      then have "B \<le> length xs" by simp
      moreover from d 1 have "batched B (drop B xs) \<noteq> []" by (simp add: batched_eq_Nil)
      ultimately show ?thesis using False 1 by (simp add: batched_step)
    qed
  qed
qed

lemma last_batched:
  "0 < B \<Longrightarrow> xs \<noteq> [] \<Longrightarrow>
     length (last (batched B xs)) = (if B dvd length xs then B else length xs mod B)"
proof (induction B xs rule: batched.induct)
  case (1 B xs)
  show ?case
  proof (cases "drop B xs = []")
    case True
    then have le: "length xs \<le> B" by simp
    from 1 True have "last (batched B xs) = take B xs" by (simp add: batched_step)
    with le have len: "length (last (batched B xs)) = length xs" by simp
    show ?thesis
    proof (cases "length xs = B")
      case True
      with len show ?thesis by simp
    next
      case False
      with le have lt: "length xs < B" by simp
      moreover from "1.prems" have "0 < length xs" by simp
      ultimately have "\<not> B dvd length xs" using dvd_imp_le leD by blast
      with len lt show ?thesis by simp
    qed
  next
    case d: False
    then have ge: "B \<le> length xs" by simp
    from d 1 have ne: "batched B (drop B xs) \<noteq> []" by (simp add: batched_eq_Nil)
    from 1 d have ih: "length (last (batched B (drop B xs))) =
        (if B dvd length xs - B then B else (length xs - B) mod B)" by simp
    from ge have "B dvd length xs - B \<longleftrightarrow> B dvd length xs"
      by (simp add: dvd_diff_nat dvd_minus_self)
    moreover from ge have "(length xs - B) mod B = length xs mod B"
      by (simp add: le_mod_geq)
    ultimately show ?thesis using 1 ne ih by (simp add: batched_step)
  qed
qed

lemma ceiling_batches: "0 < B \<Longrightarrow> int ((N + B - 1) div B) = \<lceil>real N / real B\<rceil>"
proof -
  assume B: "0 < B"
  define q where "q = (N + B - 1) div B"
  have "real N / real B \<le> real q"
  proof -
    have "N + B - 1 < (q + 1) * B"
      using B unfolding q_def by (metis Suc_eq_plus1 dividend_less_div_times add.commute mult.commute mult_Suc)
    then have "N \<le> q * B" using B by simp
    then have "real N \<le> real q * real B" by (metis of_nat_le_iff of_nat_mult)
    then show ?thesis using B by (simp add: pos_divide_le_eq)
  qed
  moreover have "real q - 1 < real N / real B"
  proof -
    have "q * B \<le> N + B - 1" unfolding q_def by simp
    then have "q * B < N + B" using B by simp
    then have "real q * real B < real N + real B" by (metis of_nat_less_iff of_nat_mult of_nat_add)
    then have "(real q - 1) * real B < real N" by (simp add: algebra_simps)
    then show ?thesis using B by (simp add: pos_less_divide_eq)
  qed
  ultimately have "\<lceil>real N / real B\<rceil> = int q"
    by (intro ceiling_unique) simp_all
  then show ?thesis by (simp add: q_def)
qed

subsection \<open>Largest score\<close>

lemma argmax_scan_first_max:
  assumes "length pre = i" and "best_i < i" and "pre ! best_i = best"
    and "\<forall>j<i. pre ! j \<le> best" and "\<forall>j<best_i. pre ! j < best"
  shows "argmax_scan xs i best_i best < length (pre @ xs)
    \<and> (\<forall>j<length (pre @ xs). (pre @ xs) ! j \<le> (pre @ xs) ! argmax_scan xs i best_i best)
    \<and> (\<forall>j<argmax_scan xs i best_i best. (pre @ xs) ! j < (pre @ xs) ! argmax_scan xs i best_i best)"
  using assms
proof (induction xs arbitrary: pre i best_i best)
  case Nil
  then show ?case by auto
next
  case (Cons x xs)
  show ?case
  proof (cases "best < x")
    case True
    have "length (pre @ [x]) = Suc i" using Cons.prems by simp
    moreover have "i < Suc i" by simp
    moreover have "(pre @ [x]) ! i = x" using Cons.prems(1) by (auto simp: nth_append)
    moreover have "\<forall>j<Suc i. (pre @ [x]) ! j \<le> x"
      using Cons.prems True by (auto simp: nth_append less_Suc_eq intro: less_imp_le order.trans)
    moreover have "\<forall>j<i. (pre @ [x]) ! j < x"
      using Cons.prems True by (auto simp: nth_append intro: le_less_trans)
    ultimately have "argmax_scan xs (Suc i) i x < length ((pre @ [x]) @ xs)
      \<and> (\<forall>j<length ((pre @ [x]) @ xs). ((pre @ [x]) @ xs) ! j \<le> ((pre @ [x]) @ xs) ! argmax_scan xs (Suc i) i x)
      \<and> (\<forall>j<argmax_scan xs (Suc i) i x. ((pre @ [x]) @ xs) ! j < ((pre @ [x]) @ xs) ! argmax_scan xs (Suc i) i x)"
      by (rule Cons.IH)
    with True show ?thesis by simp
  next
    case False
    have "length (pre @ [x]) = Suc i" using Cons.prems by simp
    moreover have "best_i < Suc i" using Cons.prems by simp
    moreover have "(pre @ [x]) ! best_i = best" using Cons.prems by (simp add: nth_append)
    moreover have "\<forall>j<Suc i. (pre @ [x]) ! j \<le> best"
      using Cons.prems False by (auto simp: nth_append less_Suc_eq)
    moreover have "\<forall>j<best_i. (pre @ [x]) ! j < best"
      using Cons.prems by (auto simp: nth_append)
    ultimately have "argmax_scan xs (Suc i) best_i best < length ((pre @ [x]) @ xs)
      \<and> (\<forall>j<length ((pre @ [x]) @ xs). ((pre @ [x]) @ xs) ! j \<le> ((pre @ [x]) @ xs) ! argmax_scan xs (Suc i) best_i best)
      \<and> (\<forall>j<argmax_scan xs (Suc i) best_i best. ((pre @ [x]) @ xs) ! j < ((pre @ [x]) @ xs) ! argmax_scan xs (Suc i) best_i best)"
      by (rule Cons.IH)
    with False show ?thesis by simp
  qed
qed

lemma argmax_first_max: "first_max (x # xs) (argmax_scan xs 1 0 x)"
  using argmax_scan_first_max [of "[x]" 1 0 x xs] by (simp add: first_max_def)

lemma torch_max_1_first_max:
  "\<forall>row\<in>set rows. row \<noteq> [] \<Longrightarrow>
     \<exists>vals idxs. torch_max_1 rows = Inr (vals, idxs) \<and> length idxs = length rows
       \<and> (\<forall>r<length rows. first_max (rows ! r) (idxs ! r))"
proof (induction rows)
  case Nil
  then show ?case by simp
next
  case (Cons row rows)
  then obtain vals idxs where ih: "torch_max_1 rows = Inr (vals, idxs)" "length idxs = length rows"
    "\<forall>r<length rows. first_max (rows ! r) (idxs ! r)" by auto
  from Cons.prems obtain x xs where row: "row = x # xs" by (cases row) auto
  have "torch_max_1 (row # rows) = Inr (max_scan xs x # vals, argmax_scan xs 1 0 x # idxs)"
    using ih row by simp
  moreover have "\<forall>r<length (row # rows). first_max ((row # rows) ! r) ((argmax_scan xs 1 0 x # idxs) ! r)"
    using ih(3) row argmax_first_max [of x xs] by (auto simp: nth_Cons split: nat.splits)
  ultimately show ?case using ih(2) by simp
qed

subsection \<open>Shapes, frames and empty inputs\<close>

lemma CNN_forward_mnist: "1 \<le> K \<Longrightarrow> CNN_forward [K, 1, 28, 28] = Inr ([K, 10], [K, 1568])"
  by (simp add: CNN_forward_def conv1_def conv2_def out_def view_flat_def)

lemma MyModel_call_mnist: "MyModel_call [K, 28, 28, 1] = Inr [K, 10]"
  by (simp add: MyModel_call_def MyModel_def)

lemma CNN_forward_0: "CNN_forward [0, 1, 28, 28] = Inl RuntimeError"
  by (simp add: CNN_forward_def conv1_def conv2_def out_def view_flat_def)

lemma test_batch_frame:
  "test_batch fw b (loc, s) = (r, loc', s') \<Longrightarrow>
     parameters s' = parameters s \<and> optimizer_state s' = optimizer_state s \<and> grad s' = grad s
     \<and> training s' = training s \<and> stdout s' = stdout s"
  by (auto simp: test_batch_def log_call_def Let_def split: sum.splits prod.splits if_splits)

lemma test_loop_frame:
  "test_loop fw bs (loc, s) = (r, loc', s') \<Longrightarrow>
     parameters s' = parameters s \<and> optimizer_state s' = optimizer_state s \<and> grad s' = grad s
     \<and> training s' = training s \<and> stdout s' = stdout s"
proof (induction bs arbitrary: loc s)
  case Nil
  then show ?case by simp
next
  case (Cons b bs)
  obtain r1 loc1 s1 where b1: "test_batch fw b (loc, s) = (r1, loc1, s1)"
    by (metis prod_cases3)
  note f1 = test_batch_frame [OF b1]
  show ?case
  proof (cases r1)
    case None
    with Cons.prems b1 have "test_loop fw bs (loc1, s1) = (r, loc', s')" by simp
    from Cons.IH [OF this] f1 show ?thesis by simp
  next
    case (Some e)
    with Cons.prems b1 have "s' = s1" by simp
    with f1 show ?thesis by simp
  qed
qed

lemma test_frame:
  "parameters (snd (test fw lds draw s)) = parameters s
   \<and> optimizer_state (snd (test fw lds draw s)) = optimizer_state s
   \<and> grad (snd (test fw lds draw s)) = grad s"
proof -
  let ?s0 = "s\<lparr> training := False \<rparr>"
  let ?loc0 = "\<lparr> correct = 0, total = 0, accuracy = None \<rparr>"
  obtain r loc s1 where l: "test_loop fw (iter_DataLoader (test_loader lds) draw) (?loc0, ?s0) = (r, loc, s1)"
    by (metis prod_cases3)
  from test_loop_frame [OF l] show ?thesis
    by (auto simp: test_def l print_def split: option.splits)
qed

lemma test_step_frame:
  "trainable_variables (test_step kr b s) = trainable_variables s \<and> adam_state (test_step kr b s) = adam_state s"
  by (simp add: test_step_def tf_log_def Let_def)

lemma test_steps_frame:
  "trainable_variables (foldl (\<lambda>s b. test_step kr b s) s bs) = trainable_variables s
   \<and> adam_state (foldl (\<lambda>s b. test_step kr b s) s bs) = adam_state s"
  by (induction bs arbitrary: s) (simp_all add: test_step_frame)

lemma train_zero: "parameters (train fw 0 lds draws s) = parameters s"
  by (simp add: train_def)

lemma train_nonpos: "n \<le> 0 \<Longrightarrow> train fw n lds draws s = s\<lparr>training := True\<rparr>"
  by (simp add: train_def)


subsection \<open>Framework calls of the training loops\<close>














subsection \<open>Printed lines\<close>

lemma train_batch_update:
  "parameters (train_batch fw E S e ib s)
     = snd (adam fw (optimizer_state s) (parameters s)
              (autograd fw (\<lambda>w. batch_loss fw w (snd ib)) (parameters s)))
   \<and> optimizer_state (train_batch fw E S e ib s)
     = fst (adam fw (optimizer_state s) (parameters s)
              (autograd fw (\<lambda>w. batch_loss fw w (snd ib)) (parameters s)))"
  by (simp add: train_batch_def batch_loss_def Let_def step_def backward_def zero_grad_def
      log_call_def print_def split: option.splits prod.splits)

lemma train_batch_stdout:
  "stdout (train_batch fw E S e ib s)
     = stdout s @
       (if (fst ib + 1) mod 100 = 0
        then [progress_line (fmt fw) (int e + 1) E (int (fst ib) + 1) (int S) (batch_loss fw (parameters s) (snd ib))]
        else [])"
  by (simp add: train_batch_def batch_loss_def Let_def step_def backward_def zero_grad_def
      log_call_def print_def split: option.splits prod.splits)







subsection \<open>Only the first component of the forward pass is used\<close>

lemma cnn_fst_cong:
  "\<forall>w x. fst (f' w x) = fst (forward fw w x) \<Longrightarrow> fst (cnn (fw\<lparr>forward := f'\<rparr>) w xs) = fst (cnn fw w xs)"
  by (simp add: cnn_def)

lemma train_batch_fst:
  assumes "\<forall>w x. fst (f' w x) = fst (forward fw w x)"
  shows "train_batch (fw\<lparr>forward := f'\<rparr>) E S e ib s = train_batch fw E S e ib s"
  using assms
  by (simp add: train_batch_def cnn_def backward_def step_def zero_grad_def log_call_def Let_def)

lemma train_fst:
  assumes "\<forall>w x. fst (f' w x) = fst (forward fw w x)"
  shows "train (fw\<lparr>forward := f'\<rparr>) E lds draws s = train fw E lds draws s"
proof -
  have "train_batch (fw\<lparr>forward := f'\<rparr>) = train_batch fw"
    using train_batch_fst [OF assms] by (intro ext)
  then have "train_epoch (fw\<lparr>forward := f'\<rparr>) = train_epoch fw"
    by (intro ext) (simp add: train_epoch_def)
  then show ?thesis by (simp add: train_def)
qed

lemma test_fst:
  assumes "\<forall>w x. fst (f' w x) = fst (forward fw w x)"
  shows "test (fw\<lparr>forward := f'\<rparr>) lds draw s = test fw lds draw s"
proof -
  have "test_batch (fw\<lparr>forward := f'\<rparr>) = test_batch fw"
    using assms by (intro ext) (simp add: test_batch_def cnn_def Let_def)
  then have "test_loop (fw\<lparr>forward := f'\<rparr>) bs ls = test_loop fw bs ls" for bs ls
    by (induction bs arbitrary: ls) (simp_all split: prod.splits option.splits)
  then show ?thesis by (simp add: test_def split: prod.splits option.splits)
qed

subsection \<open>Evaluation output and batch coverage\<close>




lemma mset_draw:
  assumes "mset draw = mset [0..<length xs]"
  shows "mset (map (\<lambda>k. xs ! k) draw) = mset xs"
proof -
  have "mset (map (\<lambda>k. xs ! k) draw) = image_mset (\<lambda>k. xs ! k) (mset draw)" by simp
  also have "\<dots> = image_mset (\<lambda>k. xs ! k) (mset [0..<length xs])" using assms by simp
  also have "\<dots> = mset (map (\<lambda>k. xs ! k) [0..<length xs])" by simp
  also have "\<dots> = mset xs" by (simp add: map_nth)
  finally show ?thesis .
qed

lemma length_draw: "mset draw = mset [0..<n] \<Longrightarrow> length draw = n"
  by (metis length_upt minus_nat.diff_0 size_mset)

lemma batched_covers:
  assumes "0 < B" and "mset ys = mset part"
  shows "covers_once B part (batched B ys)"
proof -
  from assms(2) have len: "length ys = length part" by (metis size_mset)
  have "length (batched B ys) = (length part + B - 1) div B"
    using length_batched [OF assms(1), of ys] len by simp
  then have "int (length (batched B ys)) = \<lceil>real (length part) / real B\<rceil>"
    using ceiling_batches [OF assms(1), of "length part"] by (simp only:)
  moreover have "mset (concat (batched B ys)) = mset part"
    using assms by (simp add: concat_batched)
  moreover have "list_all (\<lambda>b. length b = B) (butlast (batched B ys))"
    using assms(1) by (rule butlast_batched)
  moreover have "batched B ys = [] \<or>
      length (last (batched B ys)) = (if B dvd length part then B else length part mod B)"
  proof (cases "ys = []")
    case True
    then show ?thesis by simp
  next
    case False
    from last_batched [OF assms(1) False] len show ?thesis by simp
  qed
  ultimately show ?thesis unfolding covers_once_def by blast
qed

subsection \<open>The value the evaluation prints\<close>

lemma test_batch_value:
  "test_batch fw b (loc, s) = (None, loc', s') \<Longrightarrow>
     accuracy loc' = Some (batch_accuracy fw (parameters s) b)"
  by (auto simp: test_batch_def batch_accuracy_def Let_def split: sum.splits prod.splits if_splits)

lemma test_loop_snoc:
  "test_loop fw (bs @ [b]) ls =
     (case test_loop fw bs ls of (Some e, ls') \<Rightarrow> (Some e, ls') | (None, ls') \<Rightarrow> test_batch fw b ls')"
proof (induction bs arbitrary: ls)
  case Nil
  show ?case by (cases "test_batch fw b ls") (auto split: option.splits)
next
  case (Cons a bs)
  show ?case by (cases "test_batch fw a ls") (auto simp: Cons split: option.splits)
qed

lemma test_prints_last_batch_accuracy:
  assumes "iter_DataLoader (test_loader lds) draw = bs @ [b]"
    and "fst (test fw lds draw s) = None"
  shows "stdout (snd (test fw lds draw s))
           = stdout s @ [report_line (fmt fw) (batch_accuracy fw (parameters s) b)]"
proof -
  let ?s0 = "s\<lparr> training := False \<rparr>"
  let ?loc0 = "\<lparr> correct = 0, total = 0, accuracy = None \<rparr>"
  obtain r1 loc1 s1 where l1: "test_loop fw bs (?loc0, ?s0) = (r1, loc1, s1)"
    by (metis prod_cases3)
  obtain r2 loc2 s2 where l2: "test_loop fw (bs @ [b]) (?loc0, ?s0) = (r2, loc2, s2)"
    by (metis prod_cases3)
  from assms l2 have r2: "r2 = None"
    by (auto simp: test_def split: option.splits)
  with l1 l2 have r1: "r1 = None" and b2: "test_batch fw b (loc1, s1) = (None, loc2, s2)"
    by (auto simp: test_loop_snoc split: option.splits)
  from test_loop_frame [OF l1] have p: "parameters s1 = parameters s" by simp
  from test_batch_value [OF b2] p have a: "accuracy loc2 = Some (batch_accuracy fw (parameters s) b)"
    by simp
  from test_loop_frame [OF l2] have o: "stdout s2 = stdout s" by simp
  from assms(1) l2 r2 a o show ?thesis
    by (simp add: test_def print_def)
qed

subsection \<open>Predictions of the evaluation, shapes on any input, empty test partitions\<close>

lemma first_max_unique:
  assumes "first_max row k" and "first_max row k'"
  shows "k = k'"
proof (rule ccontr)
  assume "k \<noteq> k'"
  then consider "k < k'" | "k' < k" by linarith
  then show False
  proof cases
    case 1
    with assms(2) have "row ! k < row ! k'" by (simp add: first_max_def)
    moreover from assms have "row ! k' \<le> row ! k" by (simp add: first_max_def)
    ultimately show False by simp
  next
    case 2
    with assms(1) have "row ! k' < row ! k" by (simp add: first_max_def)
    moreover from assms have "row ! k \<le> row ! k'" by (simp add: first_max_def)
    ultimately show False by simp
  qed
qed

lemma first_max_iff: "first_max (x # xs) y \<longleftrightarrow> argmax_scan xs 1 0 x = y"
  using argmax_first_max [of x xs] first_max_unique by blast

lemma torch_max_1_rows: "torch_max_1 rows = Inr r \<Longrightarrow> [] \<notin> set rows"
  by (induction rows arbitrary: r) (auto split: list.splits sum.splits)

lemma count_equal_Cons:
  "count_equal (p # ps) (y # ys) = (if p = y then 1 else 0) + count_equal ps ys"
  by (simp add: count_equal_def)

lemma predictions_first_max:
  assumes "[] \<notin> set (fst (cnn fw w (images b)))"
  shows "\<exists>vals pred_y. torch_max_1 (fst (cnn fw w (images b))) = Inr (vals, pred_y)
           \<and> length pred_y = length b
           \<and> (\<forall>i<length b. first_max (fst (forward fw w (fst (b ! i)))) (pred_y ! i))
           \<and> count_equal pred_y (labels b)
               = length (filter (\<lambda>(x, y). first_max (fst (forward fw w x)) y) b)"
  using assms
proof (induction b)
  case Nil
  then show ?case by (simp add: cnn_def images_def labels_def count_equal_def)
next
  case (Cons xy b)
  obtain x y where xy: "xy = (x, y)" by (cases xy)
  from Cons.prems have ne: "fst (forward fw w x) \<noteq> []" and rest: "[] \<notin> set (fst (cnn fw w (images b)))"
    by (auto simp: cnn_def images_def xy)
  then obtain r rs where row: "fst (forward fw w x) = r # rs" by (cases "fst (forward fw w x)") auto
  from Cons.IH [OF rest] obtain vals pred_y where ih:
    "torch_max_1 (fst (cnn fw w (images b))) = Inr (vals, pred_y)"
    "length pred_y = length b"
    "\<forall>i<length b. first_max (fst (forward fw w (fst (b ! i)))) (pred_y ! i)"
    "count_equal pred_y (labels b) = length (filter (\<lambda>(x, y). first_max (fst (forward fw w x)) y) b)"
    by blast
  let ?k = "argmax_scan rs 1 0 r"
  have t: "torch_max_1 (fst (cnn fw w (images (xy # b)))) = Inr (max_scan rs r # vals, ?k # pred_y)"
    using ih(1) row by (simp add: cnn_def images_def xy)
  have k: "first_max (fst (forward fw w x)) ?k"
    using argmax_first_max [of r rs] row by simp
  have a: "\<forall>i<length (xy # b). first_max (fst (forward fw w (fst ((xy # b) ! i)))) ((?k # pred_y) ! i)"
    using ih(3) k by (auto simp: nth_Cons xy split: nat.splits)
  have "(?k = y) = first_max (fst (forward fw w x)) y"
    using first_max_iff [of r rs y] row by auto
  then have c: "count_equal (?k # pred_y) (labels (xy # b))
      = length (filter (\<lambda>(x, y). first_max (fst (forward fw w x)) y) (xy # b))"
    using ih(4) by (simp add: labels_def xy count_equal_Cons)
  from t a c ih(2) show ?case by auto
qed

lemma test_batch_first_max:
  assumes "test_batch fw b (loc, s) = (None, loc', s')"
  shows "\<exists>vals pred_y. torch_max_1 (fst (cnn fw (parameters s) (images b))) = Inr (vals, pred_y)
           \<and> length pred_y = length b
           \<and> (\<forall>i<length b. first_max (fst (forward fw (parameters s) (fst (b ! i)))) (pred_y ! i))
           \<and> accuracy loc' = Some (real (count_equal pred_y (labels b)) / real (length b))
           \<and> accuracy loc'
               = Some (real (length (filter (\<lambda>(x, y). first_max (fst (forward fw (parameters s) x)) y) b))
                        / real (length b))"
proof -
  from assms obtain vals0 pred0 where t0: "torch_max_1 (fst (cnn fw (parameters s) (images b))) = Inr (vals0, pred0)"
    and acc: "accuracy loc' = Some (real (count_equal pred0 (labels b)) / real (length (labels b)))"
    by (auto simp: test_batch_def Let_def split: sum.splits prod.splits if_splits)
  from torch_max_1_rows [OF t0] have "[] \<notin> set (fst (cnn fw (parameters s) (images b)))" .
  from predictions_first_max [OF this] t0 have
    "length pred0 = length b"
    "\<forall>i<length b. first_max (fst (forward fw (parameters s) (fst (b ! i)))) (pred0 ! i)"
    "count_equal pred0 (labels b) = length (filter (\<lambda>(x, y). first_max (fst (forward fw (parameters s) x)) y) b)"
    by auto
  with t0 acc show ?thesis by (auto simp: labels_def)
qed

lemma test_batch_returns:
  assumes "[] \<notin> set (fst (cnn fw (parameters s) (images b)))" and "b \<noteq> []"
  shows "fst (test_batch fw b (loc, s)) = None"
proof -
  from predictions_first_max [OF assms(1)] obtain vals pred_y where
    "torch_max_1 (fst (cnn fw (parameters s) (images b))) = Inr (vals, pred_y)" by blast
  with assms(2) show ?thesis by (simp add: test_batch_def Let_def labels_def)
qed

lemma batch_accuracy_first_max:
  assumes "test_batch fw b (loc, s) = (None, loc', s')"
  shows "batch_accuracy fw (parameters s) b
     = real (length (filter (\<lambda>(x, y). first_max (fst (forward fw (parameters s) x)) y) b)) / real (length b)"
  using test_batch_first_max [OF assms] test_batch_value [OF assms] by auto

lemma test_prints_first_max_share:
  assumes "iter_DataLoader (test_loader lds) draw = bs @ [b]"
    and "fst (test fw lds draw s) = None"
  shows "stdout (snd (test fw lds draw s))
           = stdout s @ [report_line (fmt fw)
               (real (length (filter (\<lambda>(x, y). first_max (fst (forward fw (parameters s) x)) y) b))
                  / real (length b))]"
proof -
  let ?s0 = "s\<lparr> training := False \<rparr>"
  let ?loc0 = "\<lparr> correct = 0, total = 0, accuracy = None \<rparr>"
  obtain r1 loc1 s1 where l1: "test_loop fw bs (?loc0, ?s0) = (r1, loc1, s1)"
    by (metis prod_cases3)
  obtain r2 loc2 s2 where l2: "test_loop fw (bs @ [b]) (?loc0, ?s0) = (r2, loc2, s2)"
    by (metis prod_cases3)
  from assms l2 have r2: "r2 = None"
    by (auto simp: test_def split: option.splits)
  with l1 l2 have b2: "test_batch fw b (loc1, s1) = (None, loc2, s2)"
    by (auto simp: test_loop_snoc split: option.splits)
  from test_loop_frame [OF l1] have p: "parameters s1 = parameters s" by simp
  from batch_accuracy_first_max [OF b2] p
  have "batch_accuracy fw (parameters s) b
     = real (length (filter (\<lambda>(x, y). first_max (fst (forward fw (parameters s) x)) y) b)) / real (length b)"
    by simp
  with test_prints_last_batch_accuracy [OF assms] show ?thesis by simp
qed

lemma CNN_forward_shapes:
  assumes "CNN_forward x0 = Inr (output, x)"
  shows "\<exists>K. output = [K, 10] \<and> x = [K, 32 * 7 * 7] \<and> 1 \<le> K \<and> (length x0 = 4 \<longrightarrow> K = hd x0)"
proof -
  from assms obtain x1 x2 where s1: "Sequential conv1 x0 = Inr x1" and s2: "Sequential conv2 x1 = Inr x2"
    and v: "view_flat x2 = Inr x" and l: "layer_shape out x = Inr output"
    by (auto simp: CNN_forward_def split: sum.splits)
  from v obtain n rest where x2: "x2 = n # rest" and n: "n \<noteq> 0" and x: "x = [n, prod_list rest]"
    by (auto simp: view_flat_def split: list.splits if_splits)
  from l x have p: "prod_list rest = 32 * 7 * 7" and o: "output = [n, 10]"
    by (auto simp: out_def split: if_splits)
  have "length x0 = 4 \<longrightarrow> n = hd x0"
  proof
    assume "length x0 = 4"
    then obtain a b c d where x0: "x0 = [a, b, c, d]"
      by (cases x0; cases "tl x0"; cases "tl (tl x0)"; cases "tl (tl (tl x0))") auto
    from s1 x0 obtain h1 w1 where x1: "x1 = [a, 16, h1, w1]"
      by (auto simp: conv1_def split: if_splits sum.splits)
    from s2 x1 obtain h2 w2 where "x2 = [a, 32, h2, w2]"
      by (auto simp: conv2_def split: if_splits sum.splits)
    with x2 x0 show "n = hd x0" by simp
  qed
  with x p o n show ?thesis by auto
qed





subsection \<open>Unfolding the examples\<close>

lemmas example_session = always_class_0_def fresh_session_def two_batches_def
lemmas text_output = fixed_point_def round_half_even_def str_int_def str_nat.simps digit_char_def
  zero_pad.simps
lemmas test_unfold = test_def iter_DataLoader_def sampler_def batched.simps test_batch_def cnn_def
  images_def labels_def log_call_def count_equal_def print_def report_line_def

section \<open>The claims\<close>

text \<open>
  Claim C1. For a non-empty test partition the Evaluation Routine should add up samples
  and correct predictions over all batches and report correct / total; with a model
  forced to predict class 0 and \<open>M\<close> of the \<open>N\<close> labels equal to 0 the report should be
  \<open>M / N\<close>. The function \<^verbatim>\<open>test\<close> sets \<^verbatim>\<open>correct\<close> and \<^verbatim>\<open>total\<close> to 0 and never assigns them
  again; each batch overwrites \<^verbatim>\<open>accuracy\<close> with its own share of correct predictions, and
  the print after the loop shows the value of the last batch (for every loader and model,
  by \<open>test_prints_last_batch_accuracy\<close>). On two test samples with
  labels 1 and 0, in batches of one, the model that always predicts class 0 is right on
  one of two samples (\<open>M / N = 1 / 2\<close>, which would print as 0.500), and \<^verbatim>\<open>test\<close> prints 1.000.
\<close>

theorem test_reports_last_batch_only:
  "test always_class_0 two_batches [0, 1] fresh_session =
     (None, fresh_session\<lparr> training := False,
        stdout := [''Test Accuracy of the model on the 10000 test images: 1.000''],
        calls := [Forward False [0], Forward False [1]] \<rparr>)
   \<and> length (filter (\<lambda>y. y = 0) (labels (dataset (test_loader two_batches)))) = 1
   \<and> length (dataset (test_loader two_batches)) = 2
   \<and> report_line fixed_point (1 / 2) = ''Test Accuracy of the model on the 10000 test images: 0.500''"
proof -
  have "test always_class_0 two_batches [0, 1] fresh_session =
     (None, fresh_session\<lparr> training := False,
        stdout := [''Test Accuracy of the model on the 10000 test images: 1.000''],
        calls := [Forward False [0], Forward False [1]] \<rparr>)"
    by (simp add: example_session test_unfold text_output Let_def)
  moreover have "length (filter (\<lambda>y. y = 0) (labels (dataset (test_loader two_batches)))) = 1"
    by (simp add: two_batches_def labels_def)
  moreover have "length (dataset (test_loader two_batches)) = 2"
    by (simp add: two_batches_def)
  moreover have "report_line fixed_point (1 / 2)
      = ''Test Accuracy of the model on the 10000 test images: 0.500''"
    by (simp add: report_line_def text_output Let_def)
  ultimately show ?thesis by blast
qed

text \<open>
  Claim C2. For every partition of size \<open>N\<close> and every positive batch size \<open>B\<close>, one
  traversal of the Batch Provider yields exactly \<open>\<lceil>N / B\<rceil>\<close> batches whose samples, taken
  together as a multiset, are the partition; every batch has \<open>B\<close> samples but the last, which
  has \<open>N mod B\<close> when \<open>B\<close> does not divide \<open>N\<close> and \<open>B\<close> otherwise. This is shown for the
  PyTorch loader with any positive batch size, whatever the traversal's order, with the
  number of batches equal to the loader's length, and for the two TensorFlow datasets,
  whose batch size is 32.
\<close>

theorem batch_provider_covers_partition:
  assumes "0 < batch_size dl"
    and "mset draw = mset [0..<length (dataset dl)]"
    and "mset draw' = mset [0..<length xy_train]"
  shows "covers_once (batch_size dl) (dataset dl) (iter_DataLoader dl draw)
       \<and> length (iter_DataLoader dl draw) = len_DataLoader dl
       \<and> covers_once 32 xy_train (train_ds xy_train draw')
       \<and> covers_once 32 xy_test (test_ds xy_test)"
proof -
  let ?order = "map (\<lambda>k. dataset dl ! k) (sampler dl draw)"
  have m: "mset ?order = mset (dataset dl)"
  proof (cases "shuffle dl")
    case True
    with mset_draw [OF assms(2)] show ?thesis by (simp add: sampler_def)
  next
    case False
    then show ?thesis by (simp add: sampler_def map_nth)
  qed
  then have len: "length ?order = length (dataset dl)" by (metis size_mset)
  have "covers_once (batch_size dl) (dataset dl) (iter_DataLoader dl draw)"
    unfolding iter_DataLoader_def using assms(1) m by (rule batched_covers)
  moreover have "length (iter_DataLoader dl draw) = len_DataLoader dl"
    unfolding iter_DataLoader_def len_DataLoader_def
    using assms(1) len by (simp only: length_batched)
  moreover have "covers_once 32 xy_train (train_ds xy_train draw')"
    unfolding train_ds_def using mset_draw [OF assms(3)] by (intro batched_covers) simp_all
  moreover have "covers_once 32 xy_test (test_ds xy_test)"
    unfolding test_ds_def by (intro batched_covers) simp_all
  ultimately show ?thesis by blast
qed

text \<open>Three samples in batches of two, drawn in the order 2, 0, 1.\<close>

theorem batch_provider_covers_partition_witness:
  "0 < batch_size three_samples
   \<and> mset [2, 0, 1] = mset [0..<length (dataset three_samples)]
   \<and> mset [1, 0] = mset [0..<length [''x'', ''y'']]
   \<and> iter_DataLoader three_samples [2, 0, 1] = [[''c'', ''a''], [''b'']]
   \<and> covers_once (batch_size three_samples) (dataset three_samples) (iter_DataLoader three_samples [2, 0, 1])
   \<and> length (iter_DataLoader three_samples [2, 0, 1]) = len_DataLoader three_samples
   \<and> covers_once 32 [''x'', ''y''] (train_ds [''x'', ''y''] [1, 0])
   \<and> covers_once 32 [''z''] (test_ds [''z''])"
proof -
  have h1: "0 < batch_size three_samples" by (simp add: three_samples_def)
  have h2: "mset [2, 0, 1] = mset [0..<length (dataset three_samples)]"
    by (simp add: three_samples_def upt_rec [of _ "Suc _"] numeral_3_eq_3)
  have h3: "mset [1, 0] = mset [0..<length [''x'', ''y'']]"
    by (simp add: upt_rec [of _ "Suc _"])
  have e: "iter_DataLoader three_samples [2, 0, 1] = [[''c'', ''a''], [''b'']]"
    by (simp add: three_samples_def iter_DataLoader_def sampler_def batched.simps)
  note t = batch_provider_covers_partition [OF h1 h2 h3, of "[''z'']"]
  from t have t1: "covers_once (batch_size three_samples) (dataset three_samples) (iter_DataLoader three_samples [2, 0, 1])"
    and t2: "length (iter_DataLoader three_samples [2, 0, 1]) = len_DataLoader three_samples"
    and t3: "covers_once 32 [''x'', ''y''] (train_ds [''x'', ''y''] [1, 0])"
    and t4: "covers_once 32 [''z''] (test_ds [''z''])" by blast+
  show ?thesis by (intro conjI h1 h2 h3 e t1 t2 t3 t4)
qed




text \<open>
  Claim C4. For every batch of \<open>K \<ge> 1\<close> MNIST images the classifier's scores have shape
  \<open>(K, 10)\<close>: the first component of what \<^verbatim>\<open>CNN.forward\<close> returns on \<open>(K, 1, 28, 28)\<close>, and
  what \<^verbatim>\<open>MyModel.call\<close> returns on \<open>(K, 28, 28, 1)\<close>. In both models the last layer is linear
  with 10 outputs and no activation, so the scores are logits.
\<close>

theorem classifier_output_shape:
  assumes "1 \<le> K"
  shows "(\<exists>x. CNN_forward [K, 1, 28, 28] = Inr ([K, 10], x))
       \<and> MyModel_call [K, 28, 28, 1] = Inr [K, 10]"
proof -
  from assms have "CNN_forward [K, 1, 28, 28] = Inr ([K, 10], [K, 1568])"
    by (rule CNN_forward_mnist)
  then have "\<exists>x. CNN_forward [K, 1, 28, 28] = Inr ([K, 10], x)" by blast
  moreover have "MyModel_call [K, 28, 28, 1] = Inr [K, 10]" by (rule MyModel_call_mnist)
  ultimately show ?thesis by blast
qed

text \<open>A batch of 100 images; the first block of \<^verbatim>\<open>CNN\<close> and the flattened convolution of
  \<^verbatim>\<open>MyModel\<close> on the way.\<close>

theorem classifier_output_shape_witness:
  "(1 :: nat) \<le> 100
   \<and> (\<exists>x. CNN_forward [100, 1, 28, 28] = Inr ([100, 10], x))
   \<and> MyModel_call [100, 28, 28, 1] = Inr [100, 10]
   \<and> Sequential conv1 [100, 1, 28, 28] = Inr [100, 16, 14, 14]
   \<and> keras_apply [Conv2D 32 3 (Some ''relu''), Flatten] [32, 28, 28, 1] = Inr [32, 21632]"
proof -
  have h: "(1 :: nat) \<le> 100" by simp
  note t = classifier_output_shape [OF h]
  from t have t1: "\<exists>x. CNN_forward [100, 1, 28, 28] = Inr ([100, 10], x)" by blast
  from t have t2: "MyModel_call [100, 28, 28, 1] = Inr [100, 10]" by blast
  have e1: "Sequential conv1 [100, 1, 28, 28] = Inr [100, 16, 14, 14]" by (simp add: conv1_def)
  have e2: "keras_apply [Conv2D 32 3 (Some ''relu''), Flatten] [32, 28, 28, 1] = Inr [32, 21632]"
    by simp
  show ?thesis by (intro conjI h t1 t2 e1 e2)
qed

text \<open>
  Claim C5. Running the Evaluation Routine leaves the model parameters and the optimizer
  state as they were: \<^verbatim>\<open>test\<close> in the PyTorch notebook, whether it returns or raises (the
  stored gradients are untouched as well), and \<^verbatim>\<open>test_step\<close>, alone and over all test
  batches, in the TensorFlow notebook.
\<close>

theorem evaluation_keeps_parameters_and_optimizer:
  "parameters (snd (test fw lds draw s)) = parameters s
   \<and> optimizer_state (snd (test fw lds draw s)) = optimizer_state s
   \<and> grad (snd (test fw lds draw s)) = grad s
   \<and> trainable_variables (test_step kr b t) = trainable_variables t
   \<and> adam_state (test_step kr b t) = adam_state t
   \<and> trainable_variables (foldl (\<lambda>t b. test_step kr b t) t (test_ds xy_test)) = trainable_variables t
   \<and> adam_state (foldl (\<lambda>t b. test_step kr b t) t (test_ds xy_test)) = adam_state t"
proof -
  note a = test_frame [of fw lds draw s]
  note b = test_step_frame [of kr b t]
  note c = test_steps_frame [of kr t "test_ds xy_test"]
  from a b c show ?thesis by blast
qed

text \<open>An evaluation that returns, and a \<^verbatim>\<open>test_step\<close> that does change the accuracy
  metric.\<close>

theorem evaluation_keeps_parameters_and_optimizer_witness:
  "parameters (snd (test always_class_0 two_batches [0, 1] fresh_session)) = parameters fresh_session
   \<and> optimizer_state (snd (test always_class_0 two_batches [0, 1] fresh_session))
       = optimizer_state fresh_session
   \<and> fst (test always_class_0 two_batches [0, 1] fresh_session) = None
   \<and> trainable_variables (test_step always_class_0_tf [(0, 1)] fresh_tf_session)
       = trainable_variables fresh_tf_session
   \<and> test_accuracy (test_step always_class_0_tf [(0, 0), (1, 1)] fresh_tf_session)
       = \<lparr> m_total = 1, m_count = 2 \<rparr>"
proof -
  note t = evaluation_keeps_parameters_and_optimizer
    [of always_class_0 two_batches "[0, 1]" fresh_session always_class_0_tf "[(0, 1)]" fresh_tf_session]
  from t have t1: "parameters (snd (test always_class_0 two_batches [0, 1] fresh_session))
      = parameters fresh_session" by blast
  from t have t2: "optimizer_state (snd (test always_class_0 two_batches [0, 1] fresh_session))
      = optimizer_state fresh_session" by blast
  from t have t3: "trainable_variables (test_step always_class_0_tf [(0, 1)] fresh_tf_session)
      = trainable_variables fresh_tf_session" by blast
  have e1: "fst (test always_class_0 two_batches [0, 1] fresh_session) = None"
    by (simp add: always_class_0_def two_batches_def fresh_session_def test_def iter_DataLoader_def
        sampler_def batched.simps test_batch_def cnn_def images_def labels_def log_call_def
        count_equal_def Let_def)
  have e2: "test_accuracy (test_step always_class_0_tf [(0, 0), (1, 1)] fresh_tf_session)
      = \<lparr> m_total = 1, m_count = 2 \<rparr>"
    by (simp add: always_class_0_tf_def fresh_tf_session_def test_step_def call_model_def
        update_accuracy_def update_mean_def tf_log_def images_def labels_def Let_def)
  show ?thesis by (intro conjI t1 t2 t3 e1 e2)
qed







text \<open>
  Claim C8. For every batch of score rows (each with at least one class) the predicted
  class of each image is a class with the highest score, and among several such classes
  the one with the lowest index. This holds of the indices \<^verbatim>\<open>torch.max\<close> returns, and of the
  Evaluation Routine: whenever the loop body of \<^verbatim>\<open>test\<close> completes a batch, its predictions
  are those indices for the scores the forward pass gives to the images of the batch, and
  the accuracy it assigns is the share of samples whose label is the lowest class with
  the highest score; the loop body completes every non-empty batch whose score rows are
  non-empty; and the line \<^verbatim>\<open>test\<close> prints shows that share for the last batch.
\<close>

theorem prediction_is_first_largest_score:
  "([] \<notin> set rows \<longrightarrow>
      (\<exists>vals pred_y. torch_max_1 rows = Inr (vals, pred_y) \<and> length pred_y = length rows
         \<and> (\<forall>r<length rows. first_max (rows ! r) (pred_y ! r))))
   \<and> (test_batch fw b (loc, s) = (None, loc', s') \<longrightarrow>
      (\<exists>vals pred_y. torch_max_1 (fst (cnn fw (parameters s) (images b))) = Inr (vals, pred_y)
         \<and> length pred_y = length b
         \<and> (\<forall>i<length b. first_max (fst (forward fw (parameters s) (fst (b ! i)))) (pred_y ! i))
         \<and> accuracy loc' = Some (real (count_equal pred_y (labels b)) / real (length b))
         \<and> accuracy loc'
             = Some (real (length (filter (\<lambda>(x, y). first_max (fst (forward fw (parameters s) x)) y) b))
                      / real (length b))))
   \<and> ([] \<notin> set (fst (cnn fw (parameters s) (images b))) \<longrightarrow> b \<noteq> [] \<longrightarrow>
        fst (test_batch fw b (loc, s)) = None)
   \<and> (iter_DataLoader (test_loader lds) draw = bs @ [b] \<longrightarrow> fst (test fw lds draw s) = None \<longrightarrow>
        stdout (snd (test fw lds draw s))
          = stdout s @ [report_line (fmt fw)
              (real (length (filter (\<lambda>(x, y). first_max (fst (forward fw (parameters s) x)) y) b))
                 / real (length b))])"
proof (intro conjI impI)
  assume "[] \<notin> set rows"
  then have "\<forall>row\<in>set rows. row \<noteq> []" by auto
  then show "\<exists>vals pred_y. torch_max_1 rows = Inr (vals, pred_y) \<and> length pred_y = length rows
         \<and> (\<forall>r<length rows. first_max (rows ! r) (pred_y ! r))"
    by (rule torch_max_1_first_max)
next
  assume "test_batch fw b (loc, s) = (None, loc', s')"
  then show "\<exists>vals pred_y. torch_max_1 (fst (cnn fw (parameters s) (images b))) = Inr (vals, pred_y)
         \<and> length pred_y = length b
         \<and> (\<forall>i<length b. first_max (fst (forward fw (parameters s) (fst (b ! i)))) (pred_y ! i))
         \<and> accuracy loc' = Some (real (count_equal pred_y (labels b)) / real (length b))
         \<and> accuracy loc'
             = Some (real (length (filter (\<lambda>(x, y). first_max (fst (forward fw (parameters s) x)) y) b))
                      / real (length b))"
    by (rule test_batch_first_max)
next
  assume "[] \<notin> set (fst (cnn fw (parameters s) (images b)))" and "b \<noteq> []"
  then show "fst (test_batch fw b (loc, s)) = None" by (rule test_batch_returns)
next
  assume "iter_DataLoader (test_loader lds) draw = bs @ [b]" and "fst (test fw lds draw s) = None"
  then show "stdout (snd (test fw lds draw s))
          = stdout s @ [report_line (fmt fw)
              (real (length (filter (\<lambda>(x, y). first_max (fst (forward fw (parameters s) x)) y) b))
                 / real (length b))]"
    by (rule test_prints_first_max_share)
qed

text \<open>Two rows with ties; and a batch of two images on which classes 1 and 2 tie for the
  highest score: the sample labelled 1 counts as predicted, the sample labelled 2 does
  not.\<close>

theorem prediction_is_first_largest_score_witness:
  "[] \<notin> set [[1, 3, 3, 2], [0, 0 :: real]]
   \<and> torch_max_1 [[1, 3, 3, 2], [0, 0]] = Inr ([3, 0], [1, 0])
   \<and> first_max [1, 3, 3, 2] 1 \<and> first_max [0, 0] 0
   \<and> test_batch tied_scores [(7, 1), (8, 2)] (\<lparr>correct = 0, total = 0, accuracy = None\<rparr>, fresh_session)
       = (None, \<lparr>correct = 0, total = 0, accuracy = Some (1 / 2)\<rparr>,
          fresh_session\<lparr>calls := [Forward True [7, 8]]\<rparr>)
   \<and> Some (1 / 2 :: real)
       = Some (real (length (filter (\<lambda>(x, y). first_max (fst (forward tied_scores (parameters fresh_session) x)) y)
                               [(7 :: nat, 1 :: nat), (8, 2)])) / real (length [(7 :: nat, 1 :: nat), (8, 2)]))"
proof -
  have h: "[] \<notin> set [[1, 3, 3, 2], [0, 0 :: real]]" by simp
  have e: "torch_max_1 [[1, 3, 3, 2], [0, 0]] = Inr ([3, 0], [1, 0])" by simp
  note t = prediction_is_first_largest_score [where rows = "[[1, 3, 3, 2], [0, 0]]"
      and fw = tied_scores and b = "[(7, 1), (8, 2)]"
      and loc = "\<lparr>correct = 0, total = 0, accuracy = None\<rparr>" and s = fresh_session
      and loc' = "\<lparr>correct = 0, total = 0, accuracy = Some (1 / 2)\<rparr>"
      and s' = "fresh_session\<lparr>calls := [Forward True [7, 8]]\<rparr>"]
  from t h e
  have a: "\<forall>r<length [[1, 3, 3, 2], [0, 0 :: real]]. first_max ([[1, 3, 3, 2], [0, 0]] ! r) ([1, 0] ! r)"
    by simp
  have f0: "first_max [1, 3, 3, 2] 1" using a [rule_format, of 0] by simp
  have f1: "first_max [0, 0] 0" using a [rule_format, of 1] by simp
  have b: "test_batch tied_scores [(7, 1), (8, 2)] (\<lparr>correct = 0, total = 0, accuracy = None\<rparr>, fresh_session)
       = (None, \<lparr>correct = 0, total = 0, accuracy = Some (1 / 2)\<rparr>,
          fresh_session\<lparr>calls := [Forward True [7, 8]]\<rparr>)"
    by (simp add: tied_scores_def fresh_session_def test_batch_def cnn_def images_def labels_def
        log_call_def count_equal_def Let_def)
  from t b have "accuracy \<lparr>correct = 0, total = 0, accuracy = Some (1 / 2)\<rparr>
       = Some (real (length (filter (\<lambda>(x, y). first_max (fst (forward tied_scores (parameters fresh_session) x)) y)
                               [(7 :: nat, 1 :: nat), (8, 2)])) / real (length [(7 :: nat, 1 :: nat), (8, 2)]))"
    by blast
  then have c: "Some (1 / 2 :: real)
       = Some (real (length (filter (\<lambda>(x, y). first_max (fst (forward tied_scores (parameters fresh_session) x)) y)
                               [(7 :: nat, 1 :: nat), (8, 2)])) / real (length [(7 :: nat, 1 :: nat), (8, 2)]))"
    by simp
  show ?thesis by (intro conjI h e f0 f1 b c)
qed

text \<open>
  Claim C9. Running the Training Loop with an epoch count of 0 leaves every model
  parameter unchanged, for every model, optimizer and training loader; the optimizer state
  and the call log are unchanged as well, and the TensorFlow epoch loop with 0 epochs
  changes nothing at all.
\<close>

theorem zero_epochs_leave_parameters:
  "parameters (train fw 0 lds draws s) = parameters s
   \<and> optimizer_state (train fw 0 lds draws s) = optimizer_state s
   \<and> calls (train fw 0 lds draws s) = calls s
   \<and> tf_epochs kr 0 xy_train xy_test draws' t = t"
  by (simp add: train_def tf_epochs_def)

text \<open>Zero epochs over the example loaders.\<close>

theorem zero_epochs_leave_parameters_witness:
  "parameters (train always_class_0 0 two_batches (\<lambda>e. [0, 1, 2]) fresh_session) = ()
   \<and> calls (train always_class_0 0 two_batches (\<lambda>e. [0, 1, 2]) fresh_session) = []
   \<and> tf_epochs always_class_0_tf 0 [(0, 1)] [(1, 0)] (\<lambda>e. [0]) fresh_tf_session = fresh_tf_session"
  using zero_epochs_leave_parameters [of always_class_0 two_batches "\<lambda>e. [0, 1, 2]" fresh_session
      always_class_0_tf "[(0, 1)]" "[(1, 0)]" "\<lambda>e. [0]" fresh_tf_session]
  by (simp add: fresh_session_def)

text \<open>
  Claim C10. The PyTorch forward pass returns a pair. Whenever it returns, on whatever
  input, the first component has shape \<open>(K, 10)\<close> and the second, the flattened output of
  \<^verbatim>\<open>conv2\<close>, has shape \<open>(K, 32 * 7 * 7) = (K, 1568)\<close>, with \<open>K\<close> the batch size of a batched
  input; it does return on every batch of \<open>K \<ge> 1\<close> MNIST images. At the level of values a
  batch is mapped to the pair of all first and all second components. The callers select
  the first component: in \<^verbatim>\<open>train\<close> the loss that is differentiated for the update, and
  printed, is the loss of the first components of the forward pass on the batch's images;
  in \<^verbatim>\<open>test\<close> the predictions and the accuracy come from the first components; and both
  behave the same under any forward pass with the same first components.
\<close>

theorem forward_returns_scores_and_features:
  "(CNN_forward inp = Inr (scores, feats) \<longrightarrow>
      (\<exists>K. scores = [K, 10] \<and> feats = [K, 32 * 7 * 7] \<and> 1 \<le> K \<and> (length inp = 4 \<longrightarrow> K = hd inp)))
   \<and> (1 \<le> K \<longrightarrow> CNN_forward [K, 1, 28, 28] = Inr ([K, 10], [K, 32 * 7 * 7]))
   \<and> cnn fw w xs = (map (\<lambda>x. fst (forward fw w x)) xs, map (\<lambda>x. snd (forward fw w x)) xs)
   \<and> parameters (train_batch fw E S e ib s)
       = snd (adam fw (optimizer_state s) (parameters s)
                (autograd fw
                   (\<lambda>w. loss_func fw (map (\<lambda>x. fst (forward fw w x)) (images (snd ib))) (labels (snd ib)))
                   (parameters s)))
   \<and> ((fst ib + 1) mod 100 = 0 \<longrightarrow>
        stdout (train_batch fw E S e ib s)
          = stdout s @ [progress_line (fmt fw) (int e + 1) E (int (fst ib) + 1) (int S)
              (loss_func fw (map (\<lambda>x. fst (forward fw (parameters s) x)) (images (snd ib)))
                 (labels (snd ib)))])
   \<and> (test_batch fw b (loc, s) = (None, loc', s') \<longrightarrow>
        (\<exists>vals pred_y.
           torch_max_1 (map (\<lambda>x. fst (forward fw (parameters s) x)) (images b)) = Inr (vals, pred_y)
           \<and> accuracy loc' = Some (real (count_equal pred_y (labels b)) / real (length b))))
   \<and> ((\<forall>w x. fst (f' w x) = fst (forward fw w x)) \<longrightarrow>
        train (fw\<lparr>forward := f'\<rparr>) E lds draws s = train fw E lds draws s
        \<and> test (fw\<lparr>forward := f'\<rparr>) lds draw s = test fw lds draw s)"
proof (intro conjI impI)
  assume "CNN_forward inp = Inr (scores, feats)"
  then show "\<exists>K. scores = [K, 10] \<and> feats = [K, 32 * 7 * 7] \<and> 1 \<le> K \<and> (length inp = 4 \<longrightarrow> K = hd inp)"
    by (rule CNN_forward_shapes)
next
  assume "1 \<le> K"
  then show "CNN_forward [K, 1, 28, 28] = Inr ([K, 10], [K, 32 * 7 * 7])"
    using CNN_forward_mnist [of K] by simp
next
  show "cnn fw w xs = (map (\<lambda>x. fst (forward fw w x)) xs, map (\<lambda>x. snd (forward fw w x)) xs)"
    by (simp add: cnn_def)
next
  show "parameters (train_batch fw E S e ib s)
       = snd (adam fw (optimizer_state s) (parameters s)
                (autograd fw
                   (\<lambda>w. loss_func fw (map (\<lambda>x. fst (forward fw w x)) (images (snd ib))) (labels (snd ib)))
                   (parameters s)))"
    using train_batch_update [of fw E S e ib s] by (simp add: batch_loss_def cnn_def)
next
  assume "(fst ib + 1) mod 100 = 0"
  then show "stdout (train_batch fw E S e ib s)
          = stdout s @ [progress_line (fmt fw) (int e + 1) E (int (fst ib) + 1) (int S)
              (loss_func fw (map (\<lambda>x. fst (forward fw (parameters s) x)) (images (snd ib)))
                 (labels (snd ib)))]"
    using train_batch_stdout [of fw E S e ib s] by (simp add: batch_loss_def cnn_def)
next
  assume "test_batch fw b (loc, s) = (None, loc', s')"
  from test_batch_first_max [OF this]
  show "\<exists>vals pred_y.
           torch_max_1 (map (\<lambda>x. fst (forward fw (parameters s) x)) (images b)) = Inr (vals, pred_y)
           \<and> accuracy loc' = Some (real (count_equal pred_y (labels b)) / real (length b))"
    by (auto simp: cnn_def)
next
  assume a: "\<forall>w x. fst (f' w x) = fst (forward fw w x)"
  show "train (fw\<lparr>forward := f'\<rparr>) E lds draws s = train fw E lds draws s"
    by (rule train_fst [OF a])
  show "test (fw\<lparr>forward := f'\<rparr>) lds draw s = test fw lds draw s"
    by (rule test_fst [OF a])
qed

text \<open>A batch of two images; a forward pass whose scores and features depend on the
  image, and one with the same scores and other features.\<close>

theorem forward_returns_scores_and_features_witness:
  "(1 :: nat) \<le> 2
   \<and> CNN_forward [2, 1, 28, 28] = Inr ([2, 10], [2, 1568])
   \<and> (\<exists>K. [2, 10] = [K, 10] \<and> [2, 1568] = [K, 32 * 7 * 7] \<and> 1 \<le> K
          \<and> (length [2 :: nat, 1, 28, 28] = 4 \<longrightarrow> K = hd [2 :: nat, 1, 28, 28]))
   \<and> cnn scores_by_image () [0, 1]
       = ([[1, 0, 0, 0, 0, 0, 0, 0, 0, 0], [0, 1, 0, 0, 0, 0, 0, 0, 0, 0]], [[0, 0], [1, 1]])
   \<and> (fst (99 :: nat, [(1 :: nat, 0 :: nat)]) + 1) mod 100 = 0
   \<and> stdout (train_batch scores_by_image 1 100 0 (99, [(1, 0)]) fresh_session)
       = [''Epoch [1/1], Step [100/100], Loss: 0.2500'']
   \<and> test_batch scores_by_image [(0, 0), (1, 0)] (\<lparr>correct = 0, total = 0, accuracy = None\<rparr>, fresh_session)
       = (None, \<lparr>correct = 0, total = 0, accuracy = Some (1 / 2)\<rparr>,
          fresh_session\<lparr>calls := [Forward True [0, 1]]\<rparr>)
   \<and> (\<exists>vals pred_y.
         torch_max_1 (map (\<lambda>x. fst (forward scores_by_image (parameters fresh_session) x))
                        (images [(0 :: nat, 0 :: nat), (1, 0)])) = Inr (vals, pred_y)
         \<and> Some (1 / 2) = Some (real (count_equal pred_y (labels [(0 :: nat, 0 :: nat), (1, 0)]))
                                  / real (length [(0 :: nat, 0 :: nat), (1, 0)])))
   \<and> (\<forall>w x. fst (other_features w x) = fst (forward scores_by_image w x))
   \<and> train (scores_by_image\<lparr>forward := other_features\<rparr>) 1 two_batches (\<lambda>e. [0, 1, 2]) fresh_session
       = train scores_by_image 1 two_batches (\<lambda>e. [0, 1, 2]) fresh_session
   \<and> test (scores_by_image\<lparr>forward := other_features\<rparr>) two_batches [0, 1] fresh_session
       = test scores_by_image two_batches [0, 1] fresh_session"
proof -
  note t = forward_returns_scores_and_features [where inp = "[2, 1, 28, 28]" and scores = "[2, 10]"
      and feats = "[2, 1568]" and K = 2 and fw = scores_by_image and w = "()" and xs = "[0, 1]"
      and E = 1 and S = 100 and e = 0 and ib = "(99, [(1, 0)])" and s = fresh_session
      and b = "[(0, 0), (1, 0)]" and loc = "\<lparr>correct = 0, total = 0, accuracy = None\<rparr>"
      and loc' = "\<lparr>correct = 0, total = 0, accuracy = Some (1 / 2)\<rparr>"
      and s' = "fresh_session\<lparr>calls := [Forward True [0, 1]]\<rparr>"
      and f' = other_features and lds = two_batches and draws = "\<lambda>e. [0, 1, 2]" and draw = "[0, 1]"]
  have h1: "(1 :: nat) \<le> 2" by simp
  from t h1 have c1: "CNN_forward [2, 1, 28, 28] = Inr ([2, 10], [2, 1568])" by simp
  from t c1 have c2: "\<exists>K. [2, 10] = [K, 10] \<and> [2, 1568] = [K, 32 * 7 * 7] \<and> 1 \<le> K
          \<and> (length [2 :: nat, 1, 28, 28] = 4 \<longrightarrow> K = hd [2 :: nat, 1, 28, 28])" by blast
  from t have "cnn scores_by_image () [0, 1]
      = (map (\<lambda>x. fst (forward scores_by_image () x)) [0, 1], map (\<lambda>x. snd (forward scores_by_image () x)) [0, 1])"
    by blast
  then have c3: "cnn scores_by_image () [0, 1]
       = ([[1, 0, 0, 0, 0, 0, 0, 0, 0, 0], [0, 1, 0, 0, 0, 0, 0, 0, 0, 0]], [[0, 0], [1, 1]])"
    by (simp add: scores_by_image_def)
  have h2: "(fst (99 :: nat, [(1 :: nat, 0 :: nat)]) + 1) mod 100 = 0" by simp
  from t h2 have "stdout (train_batch scores_by_image 1 100 0 (99, [(1, 0)]) fresh_session)
          = stdout fresh_session @ [progress_line (fmt scores_by_image) (int 0 + 1) 1 (int (fst (99 :: nat, [(1 :: nat, 0 :: nat)])) + 1) (int 100)
              (loss_func scores_by_image (map (\<lambda>x. fst (forward scores_by_image (parameters fresh_session) x)) (images (snd (99 :: nat, [(1 :: nat, 0 :: nat)]))))
                 (labels (snd (99 :: nat, [(1 :: nat, 0 :: nat)]))))]"
    by blast
  then have c4: "stdout (train_batch scores_by_image 1 100 0 (99, [(1, 0)]) fresh_session)
       = [''Epoch [1/1], Step [100/100], Loss: 0.2500'']"
    by (simp add: fresh_session_def scores_by_image_def images_def labels_def progress_line_def
        fixed_point_def round_half_even_def str_int_def str_nat.simps digit_char_def zero_pad.simps Let_def)
  have h3: "test_batch scores_by_image [(0, 0), (1, 0)] (\<lparr>correct = 0, total = 0, accuracy = None\<rparr>, fresh_session)
       = (None, \<lparr>correct = 0, total = 0, accuracy = Some (1 / 2)\<rparr>,
          fresh_session\<lparr>calls := [Forward True [0, 1]]\<rparr>)"
    by (simp add: scores_by_image_def fresh_session_def test_batch_def cnn_def images_def labels_def
        log_call_def count_equal_def Let_def)
  from t h3 have "\<exists>vals pred_y.
         torch_max_1 (map (\<lambda>x. fst (forward scores_by_image (parameters fresh_session) x))
                        (images [(0 :: nat, 0 :: nat), (1, 0)])) = Inr (vals, pred_y)
         \<and> accuracy \<lparr>correct = 0, total = 0, accuracy = Some (1 / 2)\<rparr>
             = Some (real (count_equal pred_y (labels [(0 :: nat, 0 :: nat), (1, 0)]))
                                  / real (length [(0 :: nat, 0 :: nat), (1, 0)]))"
    by blast
  then have c5: "\<exists>vals pred_y.
         torch_max_1 (map (\<lambda>x. fst (forward scores_by_image (parameters fresh_session) x))
                        (images [(0 :: nat, 0 :: nat), (1, 0)])) = Inr (vals, pred_y)
         \<and> Some (1 / 2) = Some (real (count_equal pred_y (labels [(0 :: nat, 0 :: nat), (1, 0)]))
                                  / real (length [(0 :: nat, 0 :: nat), (1, 0)]))"
    by simp
  have h4: "\<forall>w x. fst (other_features w x) = fst (forward scores_by_image w x)"
    by (simp add: other_features_def)
  from t h4 have c6: "train (scores_by_image\<lparr>forward := other_features\<rparr>) 1 two_batches (\<lambda>e. [0, 1, 2]) fresh_session
       = train scores_by_image 1 two_batches (\<lambda>e. [0, 1, 2]) fresh_session" by blast
  from t h4 have c7: "test (scores_by_image\<lparr>forward := other_features\<rparr>) two_batches [0, 1] fresh_session
       = test scores_by_image two_batches [0, 1] fresh_session" by blast
  show ?thesis by (intro conjI h1 c1 c2 c3 h2 c4 h3 c5 h4 c6 c7)
qed

end
